theory Spec2Isabelle
  imports Main "HOL-Library.AList"
begin

section \<open>Dates\<close>

text \<open>
  A JavaScript \<^verbatim>\<open>Date\<close> is modelled by its time value: the number of milliseconds since
  the epoch, an \<^typ>\<open>int\<close>; \<^verbatim>\<open>null\<close>, and a \<^verbatim>\<open>Date\<close> whose time value is \<^verbatim>\<open>NaN\<close>
  (\<^verbatim>\<open>Invalid Date\<close>), are \<^term>\<open>None\<close>.  Three conventions hold throughout:
  \<^item> time values are unbounded integers (the platform's limit of 8.64e15 ms is not reached);
  \<^item> \<^verbatim>\<open>new Date(string)\<close> is the platform's, not the repository's: it is a parameter
    \<open>D\<close> of every function that parses a date, \<^term>\<open>None\<close> standing for an invalid date;
  \<^item> the local time zone is the platform's too: a parameter \<open>Z\<close> of every function that
    moves a date by calendar days.
\<close>

type_synonym date = int
type_synonym date_ctor = "string \<Rightarrow> date option"

definition DAY_MS :: int where
  "DAY_MS = 1000 * 60 * 60 * 24"

text \<open>
  \<^verbatim>\<open>const parseDate = (dateStr) => {
    if (!dateStr || typeof dateStr !== 'string') return null;
    const sanitizedStr = dateStr.replace(/-/g, '/');
    const date = new Date(sanitizedStr);
    return isNaN(date.getTime()) ? null : date; }\<close>
  A field that is absent, or that is not a string, is represented by the empty string:
  \<^verbatim>\<open>parseDate\<close> returns \<^verbatim>\<open>null\<close> on all of them.
\<close>

definition sanitize :: "string \<Rightarrow> string" where
  "sanitize s = map (\<lambda>c. if c = CHR ''-'' then CHR ''/'' else c) s"

definition parseDate :: "date_ctor \<Rightarrow> string \<Rightarrow> date option" where
  "parseDate D dateStr = (if dateStr = [] then None else D (sanitize dateStr))"

text \<open>
  The state objects of the application (\<^verbatim>\<open>useState({})\<close>) and its accumulators (\<^verbatim>\<open>{}\<close>) are
  plain objects: a lookup \<^verbatim>\<open>obj[name]\<close> of a name that the object does not own goes to
  \<^verbatim>\<open>Object.prototype\<close>, and for the names below it returns the inherited member, a function
  (for \<^verbatim>\<open>__proto__\<close> the prototype object), which is truthy and is not a string.  For every
  other name it returns \<^verbatim>\<open>undefined\<close>.
\<close>

definition prototypeNames :: "string list" where
  "prototypeNames =
     [''constructor'', ''hasOwnProperty'', ''isPrototypeOf'', ''propertyIsEnumerable'',
      ''toLocaleString'', ''toString'', ''valueOf'', ''__proto__'', ''__defineGetter__'',
      ''__defineSetter__'', ''__lookupGetter__'', ''__lookupSetter__'']"

text \<open>
  What \<^verbatim>\<open>obj[name] || str\<close> evaluates to: a string, or a member inherited from
  \<^verbatim>\<open>Object.prototype\<close>.  On the latter \<^verbatim>\<open>parseDate\<close> returns \<^verbatim>\<open>null\<close> by its test
  \<^verbatim>\<open>typeof dateStr !== 'string'\<close>.
\<close>

datatype jsval = Str string | Member

definition parseDateValue :: "date_ctor \<Rightarrow> jsval \<Rightarrow> date option" where
  "parseDateValue D v = (case v of Str dateStr \<Rightarrow> parseDate D dateStr | Member \<Rightarrow> None)"

text \<open>
  A time zone is given by the two conversions of the language specification:
  \<^verbatim>\<open>LocalTime(t)\<close>, the reading of the local clock at the instant \<open>t\<close>, and
  \<^verbatim>\<open>UTC(t)\<close>, the instant at which the local clock reads \<open>t\<close> (the earlier one when a clock
  change repeats the reading, the one computed with the offset before the change when it
  skips it).  In a zone with a fixed offset of \<open>tz\<close> minutes (local = UTC + \<open>tz\<close>) they add
  and subtract the offset.
\<close>

record zone =
  localTime :: "date \<Rightarrow> date"
  utc :: "date \<Rightarrow> date"

definition fixedZone :: "int \<Rightarrow> zone" where
  "fixedZone tz = \<lparr>localTime = (\<lambda>t. t + tz * 60000), utc = (\<lambda>t. t - tz * 60000)\<rparr>"

text \<open>
  \<^verbatim>\<open>d.setDate(d.getDate() + n)\<close> for an integer \<open>n\<close>: the day of the month of the local
  reading is moved by \<open>n\<close>, its time of day is kept, and the result is converted back.
  With \<^verbatim>\<open>MakeDay\<close> taking days of the month outside the month, that is the local reading
  plus \<open>n\<close> times 24 hours: across a clock change the instant moves by an hour more or
  less.
\<close>

definition shiftDays :: "zone \<Rightarrow> date \<Rightarrow> int \<Rightarrow> date" where
  "shiftDays Z d n = utc Z (localTime Z d + n * DAY_MS)"

text \<open>
  \<^verbatim>\<open>addDays\<close>: \<^verbatim>\<open>result.setDate(result.getDate() + days)\<close> on a copy of a valid date.
  \<open>days\<close> is an integer, or \<^term>\<open>None\<close> for a number that is not finite (\<^verbatim>\<open>NaN\<close>,
  \<^verbatim>\<open>Infinity\<close>, \<^verbatim>\<open>-Infinity\<close>): \<^verbatim>\<open>setDate\<close> then leaves an invalid date.
\<close>

definition addDays :: "zone \<Rightarrow> date \<Rightarrow> int option \<Rightarrow> date option" where
  "addDays Z d days = map_option (shiftDays Z d) days"

text \<open>
  \<^verbatim>\<open>Math.round((a.getTime() - b.getTime()) / (1000 * 60 * 60 * 24))\<close>: \<^verbatim>\<open>Math.round\<close>
  rounds to the nearest integer, a half towards plus infinity.  The quotient is taken exactly.
\<close>

definition roundDays :: "int \<Rightarrow> int" where
  "roundDays ms = (2 * ms + DAY_MS) div (2 * DAY_MS)"

subsection \<open>The calendar of the platform\<close>

text \<open>
  Day number (days since 1970-01-01) of a proleptic Gregorian date and back, as the
  platform's \<^verbatim>\<open>MakeDay\<close> and \<^verbatim>\<open>YearFromTime\<close>, \<^verbatim>\<open>MonthFromTime\<close>, \<^verbatim>\<open>DateFromTime\<close>
  compute them.
\<close>

definition daysFromCivil :: "int \<Rightarrow> int \<Rightarrow> int \<Rightarrow> int" where
  "daysFromCivil y m d =
     (let y' = (if m \<le> 2 then y - 1 else y);
          era = y' div 400;
          yoe = y' mod 400;
          mp = (m + 9) mod 12;
          doy = (153 * mp + 2) div 5 + d - 1;
          doe = yoe * 365 + yoe div 4 - yoe div 100 + doy
      in era * 146097 + doe - 719468)"

definition civilFromDays :: "int \<Rightarrow> int \<times> int \<times> int" where
  "civilFromDays z =
     (let z' = z + 719468;
          era = z' div 146097;
          doe = z' mod 146097;
          yoe = (doe - doe div 1460 + doe div 36524 - doe div 146096) div 365;
          doy = doe - (365 * yoe + yoe div 4 - yoe div 100);
          mp = (5 * doy + 2) div 153;
          d = doy - (153 * mp + 2) div 5 + 1;
          m = (if mp < 10 then mp + 3 else mp - 9);
          y = yoe + era * 400 + (if m \<le> 2 then 1 else 0)
      in (y, m, d))"

definition isLeap :: "int \<Rightarrow> bool" where
  "isLeap y = (y mod 4 = 0 \<and> (y mod 100 \<noteq> 0 \<or> y mod 400 = 0))"

definition daysInMonth :: "int \<Rightarrow> int \<Rightarrow> int" where
  "daysInMonth y m =
     (if m = 2 then (if isLeap y then 29 else 28)
      else if m = 4 \<or> m = 6 \<or> m = 9 \<or> m = 11 then 30 else 31)"

definition isDigit :: "char \<Rightarrow> bool" where
  "isDigit c = (48 \<le> (of_char c :: nat) \<and> (of_char c :: nat) \<le> 57)"

definition digitVal :: "char \<Rightarrow> int" where
  "digitVal c = int (of_char c) - 48"

fun digitsVal :: "int \<Rightarrow> string \<Rightarrow> int" where
  "digitsVal acc [] = acc"
| "digitsVal acc (c # cs) = digitsVal (10 * acc + digitVal c) cs"

text \<open>
  The reference date constructor used for the worked examples: on a string of the form
  \<^verbatim>\<open>YYYY/MM/DD\<close> naming a day of the calendar, the platform returns the local midnight of
  that day; \<open>tz\<close> is the offset of local time from UTC in minutes (local = UTC + \<open>tz\<close>).
  On every other string the platform's answer is implementation-defined; the reference
  returns \<^term>\<open>None\<close> there.
\<close>

definition localDate :: "int \<Rightarrow> date_ctor" where
  "localDate tz s =
     (if length s = 10 \<and> s ! 4 = CHR ''/'' \<and> s ! 7 = CHR ''/''
         \<and> list_all isDigit (take 4 s) \<and> list_all isDigit (take 2 (drop 5 s))
         \<and> list_all isDigit (drop 8 s)
      then (let y = digitsVal 0 (take 4 s);
                m = digitsVal 0 (take 2 (drop 5 s));
                d = digitsVal 0 (drop 8 s)
            in if 1 \<le> m \<and> m \<le> 12 \<and> 1 \<le> d \<and> d \<le> daysInMonth y m
               then Some (daysFromCivil y m d * DAY_MS - tz * 60000)
               else None)
      else None)"

text \<open>
  The same in an arbitrary zone: the instant at which the local clock reads midnight of the
  day.
\<close>

definition zoneDate :: "zone \<Rightarrow> date_ctor" where
  "zoneDate Z s = map_option (utc Z) (localDate 0 s)"

subsection \<open>formatDate\<close>

definition digitChar :: "int \<Rightarrow> char" where
  "digitChar n = ''0123456789'' ! nat n"

text \<open>\<open>padded k n\<close>: the last \<open>k\<close> decimal digits of \<open>n\<close>, zero-padded.\<close>

fun padded :: "nat \<Rightarrow> int \<Rightarrow> string" where
  "padded 0 n = []"
| "padded (Suc k) n = padded k (n div 10) @ [digitChar (n mod 10)]"

text \<open>
  \<^verbatim>\<open>dateObj.toISOString().split('T')[0]\<close>: the calendar day of the time value in UTC,
  the year with four digits, or with a sign and six digits outside 0..9999.
\<close>

definition isoYear :: "int \<Rightarrow> string" where
  "isoYear y =
     (if 0 \<le> y \<and> y \<le> 9999 then padded 4 y
      else if y < 0 then CHR ''-'' # padded 6 (- y) else CHR ''+'' # padded 6 y)"

definition formatDate :: "date \<Rightarrow> string" where
  "formatDate t =
     (case civilFromDays (t div DAY_MS) of
        (y, m, d) \<Rightarrow> isoYear y @ ''-'' @ padded 2 m @ ''-'' @ padded 2 d)"

text \<open>
  \<^verbatim>\<open>formatDate\<close> of a \<^verbatim>\<open>Date\<close> object that may be invalid:
  \<^verbatim>\<open>if (!dateObj || isNaN(dateObj.getTime())) return '';\<close>
\<close>

definition formatDateObject :: "date option \<Rightarrow> string" where
  "formatDateObject d = (case d of None \<Rightarrow> [] | Some t \<Rightarrow> formatDate t)"

section \<open>Aggregation engine\<close>

text \<open>
  A row of \<^verbatim>\<open>results.projectSummary\<close>.  \<open>Project\<close> and \<open>Store\<close> are strings (the sort
  calls \<^verbatim>\<open>localeCompare\<close> on them); a date field that is absent, or that is not a string,
  is the empty string.  The override maps send a project name to the date string that
  \<^verbatim>\<open>handleStartDateChange\<close> or \<^verbatim>\<open>handleEndDateChange\<close> stored: a date input that has been
  cleared stores the empty string (the handlers write \<^verbatim>\<open>{ ...prev, [projectId]: newDate }\<close>, an
  own property whatever the name).  \<^verbatim>\<open>endDateOverrides[p.Project] || p.DueDate\<close> takes the
  override unless it is the empty string; when the object owns no override for the name it
  takes \<^verbatim>\<open>p.DueDate\<close>, unless the name is one of \<^term>\<open>prototypeNames\<close>: then it is the
  inherited member.
\<close>

record projRow =
  Project :: string
  Store :: string
  StartDate :: string
  DueDate :: string
  FinishDate :: string

record projSummary = projRow +
  OriginalStartDate :: string
  daysVariance :: int

type_synonym overrides = "string \<rightharpoonup> string"

definition orElse :: "overrides \<Rightarrow> string \<Rightarrow> string \<Rightarrow> jsval" where
  "orElse ov k dflt =
     (case ov k of
        Some s \<Rightarrow> if s = [] then Str dflt else Str s
      | None \<Rightarrow> if k \<in> set prototypeNames then Member else Str dflt)"

definition effectiveDueDateStr :: "overrides \<Rightarrow> 'a projRow_scheme \<Rightarrow> jsval" where
  "effectiveDueDateStr endDateOverrides p = orElse endDateOverrides (Project p) (DueDate p)"

definition diffDays :: "date_ctor \<Rightarrow> overrides \<Rightarrow> projRow \<Rightarrow> int" where
  "diffDays D endDateOverrides p =
     (case (parseDateValue D (effectiveDueDateStr endDateOverrides p), parseDate D (FinishDate p)) of
        (Some effectiveDueDate, Some finishDate) \<Rightarrow> roundDays (effectiveDueDate - finishDate)
      | _ \<Rightarrow> 0)"

definition summarize :: "date_ctor \<Rightarrow> overrides \<Rightarrow> projRow \<Rightarrow> projSummary" where
  "summarize D endDateOverrides p =
     projRow.extend p
       (projSummary.fields (StartDate p) (diffDays D endDateOverrides p))"

text \<open>
  \<^verbatim>\<open>Array.prototype.sort\<close> is stable; \<^verbatim>\<open>localeCompare\<close> is the platform's collation, a
  parameter \<open>lc\<close> (negative, zero or positive).  The sort is an insertion sort that puts an
  element after the elements that do not compare greater.
\<close>

fun insertBy :: "('a \<Rightarrow> 'a \<Rightarrow> int) \<Rightarrow> 'a \<Rightarrow> 'a list \<Rightarrow> 'a list" where
  "insertBy cmp x [] = [x]"
| "insertBy cmp x (y # ys) = (if cmp x y < 0 then x # y # ys else y # insertBy cmp x ys)"

definition sortBy :: "('a \<Rightarrow> 'a \<Rightarrow> int) \<Rightarrow> 'a list \<Rightarrow> 'a list" where
  "sortBy cmp xs = foldl (\<lambda>acc x. insertBy cmp x acc) [] xs"

definition cmpStoreProject :: "(string \<Rightarrow> string \<Rightarrow> int) \<Rightarrow> projSummary \<Rightarrow> projSummary \<Rightarrow> int" where
  "cmpStoreProject lc a b =
     (if lc (Store a) (Store b) \<noteq> 0 then lc (Store a) (Store b) else lc (Project a) (Project b))"

definition projectSummaryList ::
  "date_ctor \<Rightarrow> (string \<Rightarrow> string \<Rightarrow> int) \<Rightarrow> overrides \<Rightarrow> projRow list \<Rightarrow> projSummary list" where
  "projectSummaryList D lc endDateOverrides rows =
     sortBy (cmpStoreProject lc) (map (summarize D endDateOverrides) rows)"

subsection \<open>Store rollup\<close>

record storeAcc =
  accStartDate :: date
  accFinishDate :: date
  accDueDate :: date

record storeSummary =
  sumStore :: string
  sumStartDate :: string
  sumFinishDate :: string
  sumDueDate :: string
  sumDaysVariance :: int

text \<open>
  \<^verbatim>\<open>storeSummaryMap\<close> is an object keyed by store name; it is an association list in
  insertion order, each key once (\<^verbatim>\<open>Object.values\<close> lists the names that are array indices
  first; nothing below depends on the order before the sort).  One step is the body of the
  \<^verbatim>\<open>forEach\<close>.  For a store
  that has no record yet and whose name is one of \<^term>\<open>prototypeNames\<close>,
  \<^verbatim>\<open>!storeSummaryMap[store]\<close> is false: the \<^verbatim>\<open>else\<close> branch compares the dates with the
  \<^verbatim>\<open>undefined\<close> fields of the inherited member, every comparison is false, and nothing is
  written.
\<close>

definition storeStep ::
  "date_ctor \<Rightarrow> overrides \<Rightarrow> (string \<times> storeAcc) list \<Rightarrow> projSummary \<Rightarrow> (string \<times> storeAcc) list" where
  "storeStep D endDateOverrides m p =
     (case (parseDate D (StartDate p), parseDate D (FinishDate p),
            parseDateValue D (effectiveDueDateStr endDateOverrides p)) of
        (Some startDate, Some finishDate, Some dueDate) \<Rightarrow>
          (case map_of m (Store p) of
             None \<Rightarrow>
               if Store p \<in> set prototypeNames then m
               else m @ [(Store p, \<lparr>accStartDate = startDate, accFinishDate = finishDate,
                                      accDueDate = dueDate\<rparr>)]
           | Some a \<Rightarrow>
               AList.update (Store p)
                 \<lparr>accStartDate = (if startDate < accStartDate a then startDate else accStartDate a),
                  accFinishDate = (if finishDate > accFinishDate a then finishDate else accFinishDate a),
                  accDueDate = (if dueDate > accDueDate a then dueDate else accDueDate a)\<rparr> m)
      | _ \<Rightarrow> m)"

definition storeSummaryMap ::
  "date_ctor \<Rightarrow> overrides \<Rightarrow> projSummary list \<Rightarrow> (string \<times> storeAcc) list" where
  "storeSummaryMap D endDateOverrides ps = foldl (storeStep D endDateOverrides) [] ps"

definition storeRecord :: "string \<times> storeAcc \<Rightarrow> storeSummary" where
  "storeRecord kv =
     \<lparr>sumStore = fst kv,
      sumStartDate = formatDate (accStartDate (snd kv)),
      sumFinishDate = formatDate (accFinishDate (snd kv)),
      sumDueDate = formatDate (accDueDate (snd kv)),
      sumDaysVariance = roundDays (accDueDate (snd kv) - accFinishDate (snd kv))\<rparr>"

definition storeSummaryList ::
  "date_ctor \<Rightarrow> (string \<Rightarrow> string \<Rightarrow> int) \<Rightarrow> overrides \<Rightarrow> projSummary list \<Rightarrow> storeSummary list" where
  "storeSummaryList D lc endDateOverrides ps =
     sortBy (\<lambda>a b. lc (sumStore a) (sumStore b))
       (map storeRecord (storeSummaryMap D endDateOverrides ps))"

subsection \<open>What the rollup is compared with\<close>

text \<open>
  The dates of a project that the store pass takes into account (start, finish, effective
  due), when all three parse; the list of them over the projects of one store; and the
  rollup the specification describes: the earliest start, the latest finish, the latest due.
\<close>

definition parsedTriple :: "date_ctor \<Rightarrow> overrides \<Rightarrow> projSummary \<Rightarrow> (date \<times> date \<times> date) option" where
  "parsedTriple D ov p =
     (case (parseDate D (StartDate p), parseDate D (FinishDate p),
            parseDateValue D (effectiveDueDateStr ov p)) of
        (Some a, Some b, Some c) \<Rightarrow> Some (a, b, c)
      | _ \<Rightarrow> None)"

definition storeRows ::
  "date_ctor \<Rightarrow> overrides \<Rightarrow> string \<Rightarrow> projSummary list \<Rightarrow> (date \<times> date \<times> date) list" where
  "storeRows D ov s ps =
     List.map_filter (\<lambda>p. if Store p = s then parsedTriple D ov p else None) ps"

definition rollup :: "(date \<times> date \<times> date) list \<Rightarrow> storeAcc" where
  "rollup ts = \<lparr>accStartDate = Min (set (map fst ts)),
                accFinishDate = Max (set (map (fst \<circ> snd) ts)),
                accDueDate = Max (set (map (snd \<circ> snd) ts))\<rparr>"

subsection \<open>Worked examples\<close>

text \<open>A collation for the worked examples: strings ordered by character code.\<close>

fun compareCodes :: "string \<Rightarrow> string \<Rightarrow> int" where
  "compareCodes [] [] = 0"
| "compareCodes [] (y # ys) = - 1"
| "compareCodes (x # xs) [] = 1"
| "compareCodes (x # xs) (y # ys) =
     (if (of_char x :: nat) < of_char y then - 1
      else if (of_char y :: nat) < of_char x then 1
      else compareCodes xs ys)"

definition exampleX :: projRow where
  "exampleX = \<lparr>Project = ''Project X'', Store = ''Store-A'', StartDate = ''2025-07-01'',
                 DueDate = ''2025-07-12'', FinishDate = ''2025-07-10''\<rparr>"

definition exampleY :: projRow where
  "exampleY = \<lparr>Project = ''Project Y'', Store = ''Store-A'', StartDate = ''2025-07-03'',
                 DueDate = ''2025-07-15'', FinishDate = ''2025-07-20''\<rparr>"

text \<open>Project X with no finish date yet.\<close>

definition exampleXunfinished :: projRow where
  "exampleXunfinished = exampleX\<lparr>FinishDate := []\<rparr>"

text \<open>A project due on 2025-07-15, finished early and finished late.\<close>

definition exampleEarly :: projRow where
  "exampleEarly = \<lparr>Project = ''P'', Store = ''S'', StartDate = ''2025-07-01'',
                     DueDate = ''2025-07-15'', FinishDate = ''2025-07-12''\<rparr>"

definition exampleLate :: projRow where
  "exampleLate = exampleEarly\<lparr>FinishDate := ''2025-07-18''\<rparr>"

text \<open>The same project with no start date.\<close>

definition exampleNoStart :: projRow where
  "exampleNoStart = exampleEarly\<lparr>StartDate := []\<rparr>"

text \<open>
  No override at all; an end-date override for project \<open>P\<close>; and the entry a cleared date
  input leaves.
\<close>

definition noOverrides :: overrides where
  "noOverrides = Map.empty"

definition exampleOverride :: overrides where
  "exampleOverride = Map.empty(''P'' \<mapsto> ''2025-07-15'')"

definition exampleCleared :: overrides where
  "exampleCleared = Map.empty(''P'' \<mapsto> [])"

definition exampleOverridden :: projRow where
  "exampleOverridden = exampleEarly\<lparr>DueDate := ''2025-07-20''\<rparr>"

section \<open>Interactive timeline\<close>

subsection \<open>Domain\<close>

text \<open>
  The \<^verbatim>\<open>useMemo\<close> that computes \<^verbatim>\<open>minDate\<close> and \<^verbatim>\<open>maxDate\<close>: the four dates of every
  project, those that parse, their least and greatest time value, then
  \<^verbatim>\<open>min.setDate(min.getDate() - 7)\<close> and \<^verbatim>\<open>max.setDate(max.getDate() + 7)\<close>.
  \<^verbatim>\<open>{ minDate: null, maxDate: null }\<close> is \<^term>\<open>None\<close>.
\<close>

definition validTimestamps ::
  "date_ctor \<Rightarrow> overrides \<Rightarrow> overrides \<Rightarrow> projSummary list \<Rightarrow> date list" where
  "validTimestamps D startDateOverrides endDateOverrides projects =
     List.map_filter (\<lambda>d. d)
       (concat (map (\<lambda>p. [parseDate D (OriginalStartDate p),
                            parseDate D (DueDate p),
                            parseDateValue D (orElse startDateOverrides (Project p) (StartDate p)),
                            parseDateValue D (orElse endDateOverrides (Project p) (FinishDate p))])
                    projects))"

definition ganttDomain ::
  "zone \<Rightarrow> date_ctor \<Rightarrow> overrides \<Rightarrow> overrides \<Rightarrow> projSummary list \<Rightarrow> (date \<times> date) option" where
  "ganttDomain Z D startDateOverrides endDateOverrides projects =
     (if projects = [] then None
      else case validTimestamps D startDateOverrides endDateOverrides projects of
             [] \<Rightarrow> None
           | t # ts \<Rightarrow> Some (shiftDays Z (foldl min t ts) (- 7), shiftDays Z (foldl max t ts) 7))"

text \<open>
  The component returns \<^verbatim>\<open>null\<close> (renders nothing) when
  \<^verbatim>\<open>!projects || projects.length === 0 || width <= 0 || !minDate || !maxDate\<close>.
\<close>

definition ganttRenders ::
  "zone \<Rightarrow> date_ctor \<Rightarrow> overrides \<Rightarrow> overrides \<Rightarrow> projSummary list \<Rightarrow> int \<Rightarrow> bool" where
  "ganttRenders Z D startDateOverrides endDateOverrides projects width =
     (\<not> (projects = [] \<or> width \<le> 0 \<or>
         ganttDomain Z D startDateOverrides endDateOverrides projects = None))"

subsection \<open>Drag sessions\<close>

text \<open>
  \<^verbatim>\<open>dragState\<close> is \<^verbatim>\<open>null\<close> (\<^term>\<open>None\<close>) or the session that \<^verbatim>\<open>handleMouseDown\<close>
  creates.  Its initial dates are valid; a visual date is a \<^verbatim>\<open>Date\<close> object that a pointer
  move may leave invalid (\<^term>\<open>None\<close>).  The handlers call \<^verbatim>\<open>onDateChange\<close> and
  \<^verbatim>\<open>onEndDateChange\<close>: the calls of one handler are the list of events it returns, in order.
\<close>

datatype dragType = Move | ResizeStart | ResizeEnd

record dragState =
  dtype :: dragType
  project :: projSummary
  startX :: int
  initialStartDate :: date
  initialFinishDate :: date
  visualStartDate :: "date option"
  visualFinishDate :: "date option"

datatype event = StartDateChange string string | EndDateChange string string

definition handleMouseDown ::
  "date_ctor \<Rightarrow> overrides \<Rightarrow> overrides \<Rightarrow> int \<Rightarrow> projSummary \<Rightarrow> dragType \<Rightarrow> dragState option" where
  "handleMouseDown D startDateOverrides endDateOverrides clientX p ty =
     (case (parseDateValue D (orElse startDateOverrides (Project p) (OriginalStartDate p)),
            parseDateValue D (orElse endDateOverrides (Project p) (DueDate p))) of
        (Some initialStart, Some initialFinish) \<Rightarrow>
          Some \<lparr>dtype = ty, project = p, startX = clientX,
                initialStartDate = initialStart, initialFinishDate = initialFinish,
                visualStartDate = Some initialStart, visualFinishDate = Some initialFinish\<rparr>
      | _ \<Rightarrow> None)"

text \<open>
  \<^verbatim>\<open>Math.round(deltaX / pixelsPerDay)\<close> with \<^verbatim>\<open>pixelsPerDay = chartWidth / totalDays\<close>,
  \<^verbatim>\<open>chartWidth = width - margin.left - margin.right\<close> (the margins are 150 and 20) and
  \<^verbatim>\<open>totalDays = (maxDate.getTime() - minDate.getTime()) / (1000 * 60 * 60 * 24)\<close>, which is
  positive here.  The width and the pointer positions are integers.  When the chart is
  exactly as wide as its margins, \<^verbatim>\<open>pixelsPerDay\<close> is 0 and the quotient is \<^verbatim>\<open>NaN\<close> or an
  infinity: \<^term>\<open>None\<close>.  Otherwise the quotient \<open>deltaX * totalDays / chartWidth\<close> is taken
  exactly (in floating point its three operations round, which can move a quotient that
  lies on a half to the other side) and rounded to the nearest integer, a half towards plus
  infinity.
\<close>

definition dayDelta :: "date \<Rightarrow> date \<Rightarrow> int \<Rightarrow> int \<Rightarrow> int option" where
  "dayDelta minDate maxDate width deltaX =
     (let chartWidth = width - 150 - 20
      in if chartWidth = 0 then None
         else Some ((2 * (deltaX * (maxDate - minDate)) + chartWidth * DAY_MS)
                      div (2 * (chartWidth * DAY_MS))))"

text \<open>
  \<^verbatim>\<open>a <= b\<close> on two \<^verbatim>\<open>Date\<close> objects compares their time values; it is false when one
  of them is \<^verbatim>\<open>NaN\<close>.  \<^verbatim>\<open>a >= b\<close> is \<^verbatim>\<open>b <= a\<close>.
\<close>

definition dateLe :: "date option \<Rightarrow> date option \<Rightarrow> bool" where
  "dateLe a b = (case (a, b) of (Some x, Some y) \<Rightarrow> x \<le> y | _ \<Rightarrow> False)"

text \<open>
  The body of \<^verbatim>\<open>handleMouseMove\<close> after its guards.  Both dates are computed from the
  initial dates of the session, not from the previous visual dates.  In a move,
  \<^verbatim>\<open>new Date(newVisualStart.getTime() + duration)\<close> is invalid when the new start is.
\<close>

definition newVisual :: "zone \<Rightarrow> dragState \<Rightarrow> int option \<Rightarrow> date option \<times> date option" where
  "newVisual Z ds days =
     (case dtype ds of
        Move \<Rightarrow>
          (let newVisualStart = addDays Z (initialStartDate ds) days;
               duration = initialFinishDate ds - initialStartDate ds
           in (newVisualStart, map_option (\<lambda>t. t + duration) newVisualStart))
      | ResizeEnd \<Rightarrow>
          (let newVisualStart = initialStartDate ds;
               newVisualFinish = addDays Z (initialFinishDate ds) days
           in (Some newVisualStart,
               if dateLe newVisualFinish (Some newVisualStart)
               then addDays Z newVisualStart (Some 1)
               else newVisualFinish))
      | ResizeStart \<Rightarrow>
          (let newVisualFinish = initialFinishDate ds;
               newVisualStart = addDays Z (initialStartDate ds) days
           in (if dateLe (Some newVisualFinish) newVisualStart
               then addDays Z newVisualFinish (Some (- 1))
               else newVisualStart,
               Some newVisualFinish)))"

text \<open>
  \<^verbatim>\<open>if (!dragState || !minDate || !maxDate || width <= 0) return;\<close> and
  \<^verbatim>\<open>if (totalDays <= 0) return;\<close> leave the state as it is.  \<open>clientX\<close> is the position of
  the pointer.
\<close>

definition handleMouseMove ::
  "zone \<Rightarrow> (date \<times> date) option \<Rightarrow> int \<Rightarrow> int \<Rightarrow> dragState option \<Rightarrow> dragState option" where
  "handleMouseMove Z domain width clientX st =
     (case st of
        None \<Rightarrow> None
      | Some ds \<Rightarrow>
          (case domain of
             None \<Rightarrow> st
           | Some (minDate, maxDate) \<Rightarrow>
               if width \<le> 0 then st
               else if maxDate - minDate \<le> 0 then st
               else (let nv = newVisual Z ds (dayDelta minDate maxDate width (clientX - startX ds))
                     in Some (ds\<lparr>visualStartDate := fst nv, visualFinishDate := snd nv\<rparr>))))"

definition handleMouseUp :: "dragState option \<Rightarrow> event list \<times> dragState option" where
  "handleMouseUp st =
     (case st of
        None \<Rightarrow> ([], None)
      | Some ds \<Rightarrow>
          ((case dtype ds of
              Move \<Rightarrow>
                if formatDateObject (visualStartDate ds) \<noteq> formatDate (initialStartDate ds)
                then [StartDateChange (Project (project ds)) (formatDateObject (visualStartDate ds)),
                      EndDateChange (Project (project ds))
                        (formatDateObject
                           (map_option (\<lambda>t. t + (initialFinishDate ds - initialStartDate ds))
                              (visualStartDate ds)))]
                else []
            | ResizeStart \<Rightarrow>
                if formatDateObject (visualStartDate ds) \<noteq> formatDate (initialStartDate ds)
                then [StartDateChange (Project (project ds)) (formatDateObject (visualStartDate ds))]
                else []
            | ResizeEnd \<Rightarrow>
                if formatDateObject (visualFinishDate ds) \<noteq> formatDate (initialFinishDate ds)
                then [EndDateChange (Project (project ds)) (formatDateObject (visualFinishDate ds))]
                else []),
           None))"

text \<open>
  A gesture: the pointer moves that follow a pointer-down, each with the domain and the
  width of the chart at that time and the position of the pointer, and the events of the
  pointer-up.
\<close>

type_synonym pointerMove = "(date \<times> date) option \<times> int \<times> int"

definition moves :: "zone \<Rightarrow> pointerMove list \<Rightarrow> dragState option \<Rightarrow> dragState option" where
  "moves Z evs st = foldl (\<lambda>s (domain, width, clientX). handleMouseMove Z domain width clientX s) st evs"

definition gesture :: "zone \<Rightarrow> dragState \<Rightarrow> pointerMove list \<Rightarrow> event list" where
  "gesture Z ds evs = fst (handleMouseUp (moves Z evs (Some ds)))"

definition dragGesture ::
  "zone \<Rightarrow> date_ctor \<Rightarrow> overrides \<Rightarrow> overrides \<Rightarrow> int \<Rightarrow> projSummary \<Rightarrow> dragType \<Rightarrow>
   pointerMove list \<Rightarrow> event list" where
  "dragGesture Z D startDateOverrides endDateOverrides clientX p ty evs =
     (case handleMouseDown D startDateOverrides endDateOverrides clientX p ty of
        None \<Rightarrow> []
      | Some ds \<Rightarrow> gesture Z ds evs)"

text \<open>
  The events go to \<^verbatim>\<open>handleStartDateChange\<close> and \<^verbatim>\<open>handleEndDateChange\<close>, which write the
  date under the project's name into the override objects.  The bar of a project is then
  drawn from \<^verbatim>\<open>planStartDate\<close> and \<^verbatim>\<open>planDueDate\<close>, the dates that the next pointer-down
  takes as initial dates.
\<close>

definition commit :: "event list \<Rightarrow> overrides \<times> overrides \<Rightarrow> overrides \<times> overrides" where
  "commit evs ov =
     foldl (\<lambda>(startDateOverrides, endDateOverrides) e.
              case e of
                StartDateChange projectId newDate \<Rightarrow>
                  (startDateOverrides(projectId \<mapsto> newDate), endDateOverrides)
              | EndDateChange projectId newDate \<Rightarrow>
                  (startDateOverrides, endDateOverrides(projectId \<mapsto> newDate)))
       ov evs"

definition planDates ::
  "date_ctor \<Rightarrow> overrides \<times> overrides \<Rightarrow> projSummary \<Rightarrow> date option \<times> date option" where
  "planDates D ov p =
     (parseDateValue D (orElse (fst ov) (Project p) (OriginalStartDate p)),
      parseDateValue D (orElse (snd ov) (Project p) (DueDate p)))"

text \<open>
  Two states belong to the same session when they differ in their visual dates only; a
  session is fresh when its visual dates are its initial dates, as at pointer-down.
\<close>

definition sameSession :: "dragState \<Rightarrow> dragState \<Rightarrow> bool" where
  "sameSession a b \<longleftrightarrow>
     dtype a = dtype b \<and> project a = project b \<and> startX a = startX b \<and>
     initialStartDate a = initialStartDate b \<and> initialFinishDate a = initialFinishDate b"

definition fresh :: "dragState \<Rightarrow> bool" where
  "fresh ds \<longleftrightarrow>
     visualStartDate ds = Some (initialStartDate ds) \<and>
     visualFinishDate ds = Some (initialFinishDate ds)"


text \<open>
  Two properties of a zone at an instant.  \<^verbatim>\<open>setDate(getDate())\<close> leaves the instant where
  it is: so it does unless the instant lies in an hour that a clock change repeats.  And
  the instant a calendar day later is later, the one a calendar day earlier is earlier: so
  they are unless the local clock jumps by a whole day in between.  In a zone with a fixed
  offset both hold at every instant.
\<close>

definition steady :: "zone \<Rightarrow> date \<Rightarrow> bool" where
  "steady Z t \<longleftrightarrow> shiftDays Z t 0 = t"


subsection \<open>Worked examples\<close>

text \<open>
  A project planned from 2025-07-01 to 2025-07-31 and one inside that span; a project that
  starts and is due on the same day; sessions on the first project and pointer moves over
  its chart, 800 wide with 44 days on 630 pixels: 43 pixels are three days, 29 two, 72 five
  and 573 forty.
\<close>

definition exampleJuly :: projSummary where
  "exampleJuly = \<lparr>Project = ''P'', Store = ''S'', StartDate = ''2025-07-05'',
                   DueDate = ''2025-07-31'', FinishDate = ''2025-07-20'',
                   OriginalStartDate = ''2025-07-01'', daysVariance = 11\<rparr>"

definition exampleJuly2 :: projSummary where
  "exampleJuly2 = \<lparr>Project = ''Q'', Store = ''S'', StartDate = ''2025-07-10'',
                    DueDate = ''2025-07-15'', FinishDate = '''',
                    OriginalStartDate = ''2025-07-10'', daysVariance = 0\<rparr>"

definition exampleZeroLength :: projSummary where
  "exampleZeroLength = \<lparr>Project = ''P'', Store = ''S'', StartDate = ''2025-07-01'',
                         DueDate = ''2025-07-01'', FinishDate = ''2025-07-01'',
                         OriginalStartDate = ''2025-07-01'', daysVariance = 0\<rparr>"

definition exampleSession :: dragState where
  "exampleSession = \<lparr>dtype = Move, project = exampleJuly, startX = 700,
                      initialStartDate = 20270 * DAY_MS, initialFinishDate = 20300 * DAY_MS,
                      visualStartDate = Some (20270 * DAY_MS),
                      visualFinishDate = Some (20300 * DAY_MS)\<rparr>"



definition exampleTwoDays :: "pointerMove list" where
  "exampleTwoDays = [(Some (20263 * DAY_MS, 20307 * DAY_MS), 800, 743),
                     (Some (20263 * DAY_MS, 20307 * DAY_MS), 800, 729)]"

definition exampleBack :: "pointerMove list" where
  "exampleBack = [(Some (20263 * DAY_MS, 20307 * DAY_MS), 800, 743)]"




definition exampleSeptember :: projSummary where
  "exampleSeptember = exampleJuly\<lparr>FinishDate := ''2025-09-30''\<rparr>"

definition exampleConstructor :: projSummary where
  "exampleConstructor = exampleSeptember\<lparr>Project := ''constructor''\<rparr>"

text \<open>
  A zone one hour ahead of UTC until 2025-10-26 00:00 UTC and on UTC from then on: the
  local clock reads the hour after the midnight of 2025-10-26 twice.  And a project planned
  from 2025-10-01 to 2025-10-20.
\<close>

definition exampleAutumn :: zone where
  "exampleAutumn =
     \<lparr>localTime = (\<lambda>t. if t < 20387 * DAY_MS then t + 3600000 else t),
      utc = (\<lambda>t. if t < 20387 * DAY_MS + 3600000 then t - 3600000 else t)\<rparr>"

definition exampleOctober :: projSummary where
  "exampleOctober = \<lparr>Project = ''R'', Store = ''S'', StartDate = ''2025-10-01'',
                      DueDate = ''2025-10-20'', FinishDate = ''2025-10-10'',
                      OriginalStartDate = ''2025-10-01'', daysVariance = 10\<rparr>"

text \<open>
  A session in that zone on a bar from 2025-10-26 00:00 UTC, the second time the local clock
  reads midnight, to 2025-10-29 00:00 UTC.
\<close>

definition exampleRepeated :: dragState where
  "exampleRepeated = \<lparr>dtype = Move, project = exampleOctober, startX = 700,
                       initialStartDate = 20387 * DAY_MS, initialFinishDate = 20390 * DAY_MS,
                       visualStartDate = Some (20387 * DAY_MS),
                       visualFinishDate = Some (20390 * DAY_MS)\<rparr>"

section \<open>Tabular ingestion\<close>

text \<open>
  Strings are lists of characters, the code units below 256.  Among these, the white space
  that \<^verbatim>\<open>trim\<close>, \<^verbatim>\<open>parseInt\<close> and \<^verbatim>\<open>parseFloat\<close> skip is tab, line feed, vertical tab,
  form feed, carriage return, space and the no-break space U+00A0.
\<close>

definition dquote :: char where "dquote = CHR 0x22"

definition comma :: char where "comma = CHR '',''"

definition newline :: char where "newline = CHR 0x0A"

definition carriageReturn :: char where "carriageReturn = CHR 0x0D"

definition isSpace :: "char \<Rightarrow> bool" where
  "isSpace c = ((9 \<le> (of_char c :: nat) \<and> (of_char c :: nat) \<le> 13) \<or> (of_char c :: nat) = 32
                \<or> (of_char c :: nat) = 160)"

definition trim :: "string \<Rightarrow> string" where
  "trim s = rev (dropWhile isSpace (rev (dropWhile isSpace s)))"

text \<open>\<^verbatim>\<open>split('\n')\<close>: the pieces between the separators, one more than there are separators.\<close>

fun splitOn :: "char \<Rightarrow> string \<Rightarrow> string list" where
  "splitOn sep [] = [[]]"
| "splitOn sep (c # cs) =
     (if c = sep then [] # splitOn sep cs
      else (case splitOn sep cs of l # ls \<Rightarrow> (c # l) # ls | [] \<Rightarrow> [[c]]))"

text \<open>
  \<^verbatim>\<open>splitCsvRow\<close>.  Inside a quoted field the inner loop skips doubled quotes in pairs and
  stops at the first quote that is not followed by a quote, or at the end of the row:
  \<open>scanQuoted\<close> returns what it has passed and what is left, closing quote first.
  \<open>unescape\<close> is \<^verbatim>\<open>.replace(/""/g, '"')\<close>.
\<close>

fun scanQuoted :: "string \<Rightarrow> string \<times> string" where
  "scanQuoted [] = ([], [])"
| "scanQuoted [c] = (if c = dquote then ([], [c]) else ([c], []))"
| "scanQuoted (c # d # ds) =
     (if c = dquote then
        (if d = dquote then (case scanQuoted ds of (raw, rest) \<Rightarrow> (c # d # raw, rest))
         else ([], c # d # ds))
      else (case scanQuoted (d # ds) of (raw, rest) \<Rightarrow> (c # raw, rest)))"

fun unescape :: "string \<Rightarrow> string" where
  "unescape (c # d # cs) =
     (if c = dquote \<and> d = dquote then dquote # unescape cs else c # unescape (d # cs))"
| "unescape cs = cs"

text \<open>
  One turn of the outer loop, on a row that is not exhausted: the field, and the rest of the
  row after the closing quote (if the field was quoted) and after one comma (if there is one).
\<close>

definition nextField :: "string \<Rightarrow> string \<times> string" where
  "nextField s =
     (case (if hd s = dquote
            then (case scanQuoted (tl s) of (raw, r) \<Rightarrow> (unescape raw, tl r))
            else (takeWhile (\<lambda>x. x \<noteq> comma) s, dropWhile (\<lambda>x. x \<noteq> comma) s)) of
        (field, rest) \<Rightarrow>
          (field, (case rest of x # xs \<Rightarrow> if x = comma then xs else rest | [] \<Rightarrow> [])))"

lemma scanQuoted_length: "length (snd (scanQuoted s)) \<le> length s"
  by (induction s rule: scanQuoted.induct) (auto split: prod.splits)

lemma nextField_shorter: "s \<noteq> [] \<Longrightarrow> length (snd (nextField s)) < length s"
proof -
  assume ne: "s \<noteq> []"
  then obtain c cs where s: "s = c # cs" by (cases s) auto
  show ?thesis
  proof (cases "c = dquote")
    case True
    obtain raw r where q: "scanQuoted cs = (raw, r)" by (cases "scanQuoted cs") auto
    have "length r \<le> length cs" using scanQuoted_length [of cs] q by simp
    then show ?thesis
      using True q unfolding s nextField_def
      by (cases r) (auto split: list.splits)
  next
    case False
    have "length (dropWhile (\<lambda>x. x \<noteq> comma) cs) \<le> length cs"
      by (rule length_dropWhile_le)
    then show ?thesis
      using False unfolding s nextField_def
      by (auto split: list.splits simp: dquote_def comma_def)
  qed
qed

function splitFields :: "string \<Rightarrow> string list" where
  "splitFields s = (if s = [] then [] else fst (nextField s) # splitFields (snd (nextField s)))"
  by pat_completeness auto
termination
  by (relation "measure length") (auto simp: nextField_shorter)

text \<open>\<^verbatim>\<open>if (rowString.endsWith(',')) fields.push('')\<close>.\<close>

definition splitCsvRow :: "string \<Rightarrow> string list" where
  "splitCsvRow rowString =
     splitFields rowString @ (if rowString \<noteq> [] \<and> last rowString = comma then [[]] else [])"

text \<open>
  A row object maps column names to strings; with a column name that occurs twice the later
  column wins.  An entry of \<^verbatim>\<open>errors\<close> is the message it carries.  The assignment
  \<^verbatim>\<open>rowObject[header[j]] = rowValues[j] || ''\<close> creates the property, except for a column
  named \<^verbatim>\<open>__proto__\<close>: there it calls the inherited setter, which ignores a string and
  creates nothing.  The normalizer reads a row under fixed names only, none of which is
  inherited.
\<close>

type_synonym row = "string \<rightharpoonup> string"

datatype csvError = NoDataRows | IncorrectColumns nat nat nat

function showNat :: "nat \<Rightarrow> string" where
  "showNat n = (if n < 10 then [digitChar (int n)]
                else showNat (n div 10) @ [digitChar (int (n mod 10))])"
  by pat_completeness auto
termination
  by (relation "measure id") auto

fun message :: "csvError \<Rightarrow> string" where
  "message NoDataRows = ''CSV has no data rows.''"
| "message (IncorrectColumns line expected found) =
     ''Row '' @ showNat line @ '' has incorrect columns (expected '' @ showNat expected @
     '', found '' @ showNat found @ ''). Skipping.''"

definition rowObject :: "string list \<Rightarrow> string list \<Rightarrow> row" where
  "rowObject header rowValues =
     foldl (\<lambda>obj (k, v). if k = ''__proto__'' then obj else obj(k \<mapsto> v)) Map.empty
       (zip header rowValues)"

text \<open>\<^verbatim>\<open>if (!lines[i] || !lines[i].trim()) continue;\<close>\<close>

definition blank :: "string \<Rightarrow> bool" where
  "blank l = (l = [] \<or> trim l = [])"

text \<open>
  The \<^verbatim>\<open>for\<close> loop over the lines after the header; \<open>i\<close> is the index of the line in
  \<^verbatim>\<open>lines\<close>, the header having index 0, and \<open>Suc i\<close> is the number that the message
  carries.  \<^verbatim>\<open>lines\<close> are the lines of \<^verbatim>\<open>csvText.trim()\<close>: when the file begins with line
  breaks, these are not counted.
\<close>

fun parseLines :: "string list \<Rightarrow> nat \<Rightarrow> string list \<Rightarrow> row list \<times> csvError list" where
  "parseLines header i [] = ([], [])"
| "parseLines header i (l # ls) =
     (case parseLines header (Suc i) ls of
        (data, errors) \<Rightarrow>
          if blank l then (data, errors)
          else if length (splitCsvRow l) \<noteq> length header
               then (data, IncorrectColumns (Suc i) (length header) (length (splitCsvRow l)) # errors)
               else (rowObject header (splitCsvRow l) # data, errors))"

definition csvLines :: "string \<Rightarrow> string list" where
  "csvLines csvText = splitOn newline (filter (\<lambda>c. c \<noteq> carriageReturn) (trim csvText))"

definition csvHeader :: "string \<Rightarrow> string list" where
  "csvHeader csvText = map trim (splitCsvRow (hd (csvLines csvText)))"

definition robustCsvParse :: "string \<Rightarrow> row list \<times> csvError list" where
  "robustCsvParse csvText =
     (if length (csvLines csvText) < 2 then ([], [NoDataRows])
      else parseLines (csvHeader csvText) 1 (tl (csvLines csvText)))"

section \<open>Schema normalizer\<close>

text \<open>
  The alias table, in the order in which \<^verbatim>\<open>for (const key in renamedCols)\<close> visits it.
  \<^verbatim>\<open>if (row[key]) newRow[renamedCols[key]] = row[key]\<close> reads the row as it came in and
  writes the copy.
\<close>

definition renamedCols :: "(string \<times> string) list" where
  "renamedCols =
     [(''Game'', ''Project''), (''Project'', ''Project''),
      (''Expected Hours'', ''Estimated Hours''), (''Labor Time'', ''Estimated Hours''),
      (''Estimated Hours'', ''Estimated Hours''), (''Due Date'', ''DueDate''),
      (''Start Date'', ''StartDate''), (''Value'', ''Value''), (''Store'', ''Store'')]"

definition truthy :: "string option \<Rightarrow> bool" where
  "truthy v = (case v of None \<Rightarrow> False | Some s \<Rightarrow> s \<noteq> [])"

definition rename :: "row \<Rightarrow> row" where
  "rename r =
     foldl (\<lambda>newRow (key, target). if truthy (r key) then newRow(target := r key) else newRow)
       r renamedCols"

text \<open>
  \<^verbatim>\<open>parseInt(s, 10)\<close>: leading white space, a sign, then the longest run of digits;
  \<^verbatim>\<open>NaN\<close> (\<^term>\<open>None\<close>) when there is no digit.  \<^verbatim>\<open>parseFloat(s)\<close>: leading white space,
  then the longest prefix that is a decimal literal; the result is given by that literal,
  \<^verbatim>\<open>NaN\<close> when there is none.  Of an absent column (\<^verbatim>\<open>undefined\<close>) both are \<^verbatim>\<open>NaN\<close>.
\<close>

definition parseInt10 :: "string \<Rightarrow> int option" where
  "parseInt10 s =
     (let t = dropWhile isSpace s;
          neg = (t \<noteq> [] \<and> hd t = CHR ''-'');
          u = (if t \<noteq> [] \<and> (hd t = CHR ''-'' \<or> hd t = CHR ''+'') then tl t else t);
          ds = takeWhile isDigit u
      in if ds = [] then None
         else Some (if neg then - digitsVal 0 ds else digitsVal 0 ds))"

definition exponentPart :: "string \<Rightarrow> string" where
  "exponentPart r =
     (case r of
        [] \<Rightarrow> []
      | e # r1 \<Rightarrow>
          if e = CHR ''e'' \<or> e = CHR ''E'' then
            (let sg = (if r1 \<noteq> [] \<and> (hd r1 = CHR ''-'' \<or> hd r1 = CHR ''+'') then [hd r1] else []);
                 ds = takeWhile isDigit (drop (length sg) r1)
             in if ds = [] then [] else e # sg @ ds)
          else [])"

definition parseFloat :: "string \<Rightarrow> string option" where
  "parseFloat s =
     (let t = dropWhile isSpace s;
          sg = (if t \<noteq> [] \<and> (hd t = CHR ''-'' \<or> hd t = CHR ''+'') then [hd t] else []);
          u = drop (length sg) t
      in if take 8 u = ''Infinity'' then Some (sg @ ''Infinity'')
         else (let ip = takeWhile isDigit u;
                   r1 = dropWhile isDigit u;
                   fp = (if r1 \<noteq> [] \<and> hd r1 = CHR ''.'' then CHR ''.'' # takeWhile isDigit (tl r1)
                         else []);
                   r2 = drop (length fp) r1
               in if ip = [] \<and> length fp \<le> 1 then None
                  else Some (sg @ ip @ fp @ exponentPart r2)))"

text \<open>
  A cleaned row: the columns as strings, and the fields that the second \<^verbatim>\<open>map\<close> overwrites.
  \<open>Value\<close> is the literal parsed; \<^term>\<open>None\<close> there is the 0 that \<^verbatim>\<open>|| 0\<close> puts in place of
  \<^verbatim>\<open>NaN\<close>.
\<close>

record task =
  columns :: row
  EstimatedHours :: "string option"
  Order :: "int option"
  taskDueDate :: "date option"
  taskStartDate :: "date option"
  Value :: "string option"
  taskStore :: string

definition orEmpty :: "string option \<Rightarrow> string" where
  "orEmpty v = (case v of None \<Rightarrow> [] | Some s \<Rightarrow> s)"

definition coerce :: "date_ctor \<Rightarrow> row \<Rightarrow> task" where
  "coerce D r =
     \<lparr>columns = r,
      EstimatedHours = Option.bind (r ''Estimated Hours'') parseFloat,
      Order = Option.bind (r ''Order'') parseInt10,
      taskDueDate = parseDate D (orEmpty (r ''DueDate'')),
      taskStartDate = parseDate D (orEmpty (r ''StartDate'')),
      Value = Option.bind (r ''Value'') (\<lambda>v. parseFloat (filter (\<lambda>c. c \<noteq> comma) v)),
      taskStore = (if truthy (r ''Store'') then orEmpty (r ''Store'') else ''N/A'')\<rparr>"

text \<open>
  \<^verbatim>\<open>.filter(row => row.Project && row.SKU && row.Store && !isNaN(row['Order']) &&
  row['DueDate'] && row['StartDate'] && !isNaN(row['Estimated Hours']))\<close>
\<close>

definition kept :: "task \<Rightarrow> bool" where
  "kept t \<longleftrightarrow>
     truthy (columns t ''Project'') \<and> truthy (columns t ''SKU'') \<and> taskStore t \<noteq> [] \<and>
     Order t \<noteq> None \<and> taskDueDate t \<noteq> None \<and> taskStartDate t \<noteq> None \<and>
     EstimatedHours t \<noteq> None"

text \<open>
  \<^verbatim>\<open>null\<close> is \<^term>\<open>None\<close>.  The rows come from \<^verbatim>\<open>robustCsvParse\<close>: nothing in the body
  throws on them, and the \<^verbatim>\<open>catch\<close> branch is not reached.
\<close>

definition loadAndCleanData :: "date_ctor \<Rightarrow> row list \<Rightarrow> task list option" where
  "loadAndCleanData D data =
     (if data = [] then Some []
      else (let processed = filter kept (map (coerce D) (map rename data))
            in if processed = [] then None else Some processed))"

text \<open>
  What the specification asks of a row that survives, the store left out: a project, a SKU,
  an order that is an integer, estimated hours that are a number, two dates that parse.
\<close>

definition survives :: "date_ctor \<Rightarrow> row \<Rightarrow> bool" where
  "survives D r \<longleftrightarrow>
     truthy (rename r ''Project'') \<and> truthy (rename r ''SKU'') \<and>
     Option.bind (rename r ''Order'') parseInt10 \<noteq> None \<and>
     Option.bind (rename r ''Estimated Hours'') parseFloat \<noteq> None \<and>
     parseDate D (orEmpty (rename r ''StartDate'')) \<noteq> None \<and>
     parseDate D (orEmpty (rename r ''DueDate'')) \<noteq> None"

section \<open>Upload\<close>

text \<open>
  \<^verbatim>\<open>builtProjects\<close>: the projects of the loaded tasks, here their names, each once.  The
  \<^verbatim>\<open>reduce\<close> enters a name under the test \<^verbatim>\<open>task.Project && !acc[task.Project]\<close> on a
  plain object: a name that is one of \<^term>\<open>prototypeNames\<close> finds the inherited member
  there and is never entered.  The projects are then sorted by name; \<^verbatim>\<open>handleFileChange\<close>
  puts the names into a \<^verbatim>\<open>Set\<close>, for which their order does not matter, and the sort is
  left out.  \<open>uniq\<close> is \<^verbatim>\<open>new Set(...)\<close> read in insertion order; \<open>joinWith\<close> is
  \<^verbatim>\<open>join\<close>.
\<close>

definition taskProject :: "task \<Rightarrow> string" where
  "taskProject t = orEmpty (columns t ''Project'')"

fun uniq :: "string list \<Rightarrow> string list" where
  "uniq [] = []"
| "uniq (x # xs) = x # filter (\<lambda>y. y \<noteq> x) (uniq xs)"

definition builtProjects :: "task list \<Rightarrow> string list" where
  "builtProjects projectTasks =
     uniq (map taskProject
       (filter (\<lambda>t. taskProject t \<noteq> [] \<and> taskProject t \<notin> set prototypeNames) projectTasks))"

fun joinWith :: "string \<Rightarrow> string list \<Rightarrow> string" where
  "joinWith sep [] = []"
| "joinWith sep [x] = x"
| "joinWith sep (x # y # ys) = x @ sep @ joinWith sep (y # ys)"

text \<open>
  The state that \<^verbatim>\<open>handleFileChange\<close> writes, and \<^verbatim>\<open>reader.onload\<close> on the text of the
  file; \<^verbatim>\<open>setError('')\<close> has run before the file is read.
\<close>

record appState =
  projectTasks :: "task list"
  projectFileName :: string
  error :: string

definition duplicates :: "task list \<Rightarrow> task list \<Rightarrow> string list" where
  "duplicates cleanedData tasks =
     filter (\<lambda>name. name \<in> set (builtProjects tasks)) (uniq (map taskProject cleanedData))"

definition fileLoaded :: "date_ctor \<Rightarrow> string \<Rightarrow> string \<Rightarrow> appState \<Rightarrow> appState" where
  "fileLoaded D fileName text st =
     (let results = robustCsvParse text;
          st1 = st\<lparr>error := (if snd results \<noteq> [] then ''CSV file '' @ [CHR 0x27] @ fileName @ [CHR 0x27] @ '' has issues.''
                               else [])\<rparr>;
          cleanedData = loadAndCleanData D (fst results);
          st2 = (if cleanedData = None
                 then st1\<lparr>error := ''No valid data rows found after cleaning. Check required columns: Project, SKU, Store, Order, DueDate, StartDate, and Estimated Hours.''\<rparr>
                 else st1)
      in case cleanedData of
           Some (c # cs) \<Rightarrow>
             if duplicates (c # cs) (projectTasks st) \<noteq> []
             then st2\<lparr>error := ''Upload failed. The following projects already exist: '' @
                                 joinWith '', '' (duplicates (c # cs) (projectTasks st)) @
                                 ''. Please remove them or use unique names in your CSV.''\<rparr>
             else st2\<lparr>projectTasks := projectTasks st @ (c # cs),
                      projectFileName := fileName,
                      error := (if snd results = [] then [] else error st2)\<rparr>
         | _ \<Rightarrow>
             if fst results = []
             then st2\<lparr>error := ''No valid data could be processed from the project CSV file.''\<rparr>
             else st2)"

subsection \<open>Worked examples\<close>

text \<open>
  A file with a short line, one with an empty line and one with a line of spaces; rows with
  aliases of the estimated hours; a row with no store, and the same with an order that is
  not a number; a file with one task of project Job-001, and the state after loading it.
\<close>

definition exampleCsv :: string where
  "exampleCsv = ''a,b'' @ [newline] @ ''3'' @ [newline] @ ''1,2''"

definition exampleCsvBlank :: string where
  "exampleCsvBlank = ''a,b'' @ [newline, newline] @ ''1,2''"

definition exampleCsvSpace :: string where
  "exampleCsvSpace = ''a'' @ [newline] @ '' '' @ [newline] @ ''x''"

text \<open>The first file after two empty lines, and a file with a line of no-break spaces.\<close>

definition exampleCsvLeading :: string where
  "exampleCsvLeading = [newline, newline] @ exampleCsv"

definition exampleCsvNbsp :: string where
  "exampleCsvNbsp = ''a,b'' @ [newline] @ [CHR 0xA0, CHR 0xA0] @ [newline] @ ''1,2''"

definition exampleAliases :: row where
  "exampleAliases = Map.empty(''Expected Hours'' \<mapsto> ''5'', ''Labor Time'' \<mapsto> ''7'')"

definition exampleCanonical :: row where
  "exampleCanonical = exampleAliases(''Estimated Hours'' \<mapsto> ''3'')"

definition exampleDueDates :: row where
  "exampleDueDates = Map.empty(''DueDate'' \<mapsto> ''2025-07-10'', ''Due Date'' \<mapsto> ''2025-08-01'')"

definition exampleNoStore :: row where
  "exampleNoStore = Map.empty(''Project'' \<mapsto> ''Job-001'', ''SKU'' \<mapsto> ''S1'', ''Order'' \<mapsto> ''1'',
     ''Estimated Hours'' \<mapsto> ''2.5'', ''StartDate'' \<mapsto> ''2025-07-01'', ''DueDate'' \<mapsto> ''2025-07-10'')"

definition exampleNoOrder :: row where
  "exampleNoOrder = exampleNoStore(''Order'' \<mapsto> ''first'')"

definition exampleUpload :: string where
  "exampleUpload =
     ''Project,SKU,Store,Order,Estimated Hours,StartDate,DueDate'' @ [newline] @
     ''Job-001,S1,Store-A,1,2.5,2025-07-01,2025-07-10''"

text \<open>The same file for a project named \<open>constructor\<close>.\<close>

definition exampleInherited :: string where
  "exampleInherited =
     ''Project,SKU,Store,Order,Estimated Hours,StartDate,DueDate'' @ [newline] @
     ''constructor,S1,Store-A,1,2.5,2025-07-01,2025-07-10''"

definition exampleEmptyState :: appState where
  "exampleEmptyState = \<lparr>projectTasks = [], projectFileName = [], error = []\<rparr>"

definition exampleLoaded :: appState where
  "exampleLoaded = fileLoaded (localDate 0) ''a.csv'' exampleUpload exampleEmptyState"

definition exampleInheritedLoaded :: appState where
  "exampleInheritedLoaded = fileLoaded (localDate 0) ''a.csv'' exampleInherited exampleEmptyState"

section \<open>Verification: dates and sorting\<close>

lemma localDate_shift: "localDate tz s = map_option (\<lambda>t. t - tz * 60000) (localDate 0 s)"
  by (simp add: localDate_def Let_def)

lemma parseDate_shift:
  "parseDate (localDate tz) s = map_option (\<lambda>t. t - tz * 60000) (parseDate (localDate 0) s)"
  by (simp add: parseDate_def localDate_shift [of tz])

lemma parseDate_empty: "parseDate D [] = None"
  by (simp add: parseDate_def)

lemma parseDateValue_simps [simp]:
  "parseDateValue D (Str s) = parseDate D s" "parseDateValue D Member = None"
  by (simp_all add: parseDateValue_def)

lemma parseDateValue_shift:
  "parseDateValue (localDate tz) v = map_option (\<lambda>t. t - tz * 60000) (parseDateValue (localDate 0) v)"
  by (cases v) (simp_all add: parseDate_shift [of tz])

lemma roundDays_iff:
  "roundDays x = n \<longleftrightarrow> (2 * n - 1) * DAY_MS \<le> 2 * x \<and> 2 * x < (2 * n + 1) * DAY_MS"
  unfolding roundDays_def DAY_MS_def by simp linarith

lemma formatDate_same_day:
  assumes "0 \<le> r" and "r < DAY_MS"
  shows "formatDate (k * DAY_MS + r) = formatDate (k * DAY_MS)"
proof -
  have "(k * DAY_MS + r) div DAY_MS = k"
    using assms by (simp add: DAY_MS_def div_pos_pos_trivial)
  moreover have "(k * DAY_MS) div DAY_MS = k"
    by (simp add: DAY_MS_def)
  ultimately show ?thesis
    by (simp add: formatDate_def)
qed

lemma set_insertBy: "set (insertBy cmp x ys) = insert x (set ys)"
  by (induction ys) auto

lemma set_sortBy_aux: "set (foldl (\<lambda>acc x. insertBy cmp x acc) acc xs) = set acc \<union> set xs"
  by (induction xs arbitrary: acc) (auto simp: set_insertBy)

lemma set_sortBy: "set (sortBy cmp xs) = set xs"
  by (simp add: sortBy_def set_sortBy_aux)

lemma length_insertBy: "length (insertBy cmp x ys) = Suc (length ys)"
  by (induction ys) auto

lemma length_sortBy_aux:
  "length (foldl (\<lambda>acc x. insertBy cmp x acc) acc xs) = length acc + length xs"
  by (induction xs arbitrary: acc) (auto simp: length_insertBy)

lemma length_sortBy: "length (sortBy cmp xs) = length xs"
  by (simp add: sortBy_def length_sortBy_aux)

lemma distinct_map_insertBy:
  "distinct (map f (insertBy cmp x ys)) \<longleftrightarrow> f x \<notin> f ` set ys \<and> distinct (map f ys)"
  by (induction ys) (auto simp: set_insertBy)

lemma distinct_map_sortBy_aux:
  "distinct (map f (foldl (\<lambda>acc x. insertBy cmp x acc) acc xs)) \<longleftrightarrow> distinct (map f (acc @ xs))"
proof (induction xs arbitrary: acc)
  case Nil
  then show ?case by simp
next
  case (Cons x xs)
  show ?case
    by (simp add: Cons.IH distinct_map_insertBy set_insertBy) blast
qed

lemma distinct_map_sortBy: "distinct (map f (sortBy cmp xs)) \<longleftrightarrow> distinct (map f xs)"
  by (simp add: sortBy_def distinct_map_sortBy_aux)

lemma sortBy_two: "sortBy cmp [a, b] = (if cmp b a < 0 then [b, a] else [a, b])"
  by (simp add: sortBy_def)

lemma sortBy_one: "sortBy cmp [a] = [a]"
  by (simp add: sortBy_def)

section \<open>Verification: the store rollup\<close>

lemma storeStep_skip: "parsedTriple D ov p = None \<Longrightarrow> storeStep D ov m p = m"
  by (auto simp: parsedTriple_def storeStep_def split: option.splits)

lemma storeStep_take:
  "parsedTriple D ov p = Some (a, b, c) \<Longrightarrow>
   storeStep D ov m p =
     (case map_of m (Store p) of
        None \<Rightarrow>
          if Store p \<in> set prototypeNames then m
          else m @ [(Store p, \<lparr>accStartDate = a, accFinishDate = b, accDueDate = c\<rparr>)]
      | Some acc \<Rightarrow>
          AList.update (Store p)
            \<lparr>accStartDate = min a (accStartDate acc), accFinishDate = max b (accFinishDate acc),
             accDueDate = max c (accDueDate acc)\<rparr> m)"
  by (auto simp: parsedTriple_def storeStep_def min_def max_def split: option.splits)

lemma map_of_storeStep:
  "map_of (storeStep D ov m p) s =
     (case parsedTriple D ov p of
        None \<Rightarrow> map_of m s
      | Some (a, b, c) \<Rightarrow>
          if Store p = s
          then (case map_of m s of
                  None \<Rightarrow>
                    if s \<in> set prototypeNames then None
                    else Some \<lparr>accStartDate = a, accFinishDate = b, accDueDate = c\<rparr>
                | Some acc \<Rightarrow> Some \<lparr>accStartDate = min a (accStartDate acc),
                                     accFinishDate = max b (accFinishDate acc),
                                     accDueDate = max c (accDueDate acc)\<rparr>)
          else map_of m s)"
proof (cases "parsedTriple D ov p")
  case None
  then show ?thesis by (simp add: storeStep_skip)
next
  case (Some t)
  obtain a b c where t: "t = (a, b, c)" by (cases t) auto
  show ?thesis
    using Some unfolding t
    by (auto simp: storeStep_take update_conv' map_add_def split: option.splits)
qed

lemma distinct_storeStep:
  assumes "distinct (map fst m)"
  shows "distinct (map fst (storeStep D ov m p))"
proof (cases "parsedTriple D ov p")
  case None
  then show ?thesis using assms by (simp add: storeStep_skip)
next
  case (Some t)
  obtain a b c where t: "t = (a, b, c)" by (cases t) auto
  show ?thesis
    using Some assms unfolding t
    by (auto simp: storeStep_take distinct_update map_of_eq_None_iff split: option.splits)
qed

lemma storeSummaryMap_snoc:
  "storeSummaryMap D ov (ps @ [p]) = storeStep D ov (storeSummaryMap D ov ps) p"
  by (simp add: storeSummaryMap_def)

lemma distinct_storeSummaryMap: "distinct (map fst (storeSummaryMap D ov ps))"
proof (induction ps rule: rev_induct)
  case Nil
  then show ?case by (simp add: storeSummaryMap_def)
next
  case (snoc p ps)
  then show ?case by (simp add: storeSummaryMap_snoc distinct_storeStep)
qed

lemma storeRows_snoc:
  "storeRows D ov s (ps @ [p]) =
     storeRows D ov s ps @
       (if Store p = s then (case parsedTriple D ov p of None \<Rightarrow> [] | Some t \<Rightarrow> [t]) else [])"
  by (simp add: storeRows_def map_filter_def split: option.splits)

lemma rollup_single: "rollup [(a, b, c)] = \<lparr>accStartDate = a, accFinishDate = b, accDueDate = c\<rparr>"
  by (simp add: rollup_def)

lemma rollup_snoc:
  "ts \<noteq> [] \<Longrightarrow>
   rollup (ts @ [(a, b, c)]) =
     \<lparr>accStartDate = min a (accStartDate (rollup ts)),
      accFinishDate = max b (accFinishDate (rollup ts)),
      accDueDate = max c (accDueDate (rollup ts))\<rparr>"
  by (simp add: rollup_def)

lemma map_of_storeSummaryMap:
  "map_of (storeSummaryMap D ov ps) s =
     (if s \<in> set prototypeNames \<or> storeRows D ov s ps = [] then None
      else Some (rollup (storeRows D ov s ps)))"
proof (induction ps rule: rev_induct)
  case Nil
  then show ?case by (simp add: storeSummaryMap_def storeRows_def map_filter_def)
next
  case (snoc p ps)
  show ?case
  proof (cases "parsedTriple D ov p")
    case None
    then show ?thesis
      by (simp add: storeSummaryMap_snoc map_of_storeStep storeRows_snoc snoc.IH)
  next
    case (Some t)
    obtain a b c where t: "t = (a, b, c)" by (cases t) auto
    show ?thesis
      using Some unfolding t
      by (simp add: storeSummaryMap_snoc map_of_storeStep storeRows_snoc snoc.IH
          rollup_single rollup_snoc)
  qed
qed

lemma map_filter_Nil_iff: "List.map_filter f xs = [] \<longleftrightarrow> (\<forall>x\<in>set xs. f x = None)"
  by (induction xs) (auto simp: map_filter_def)

lemma storeRows_empty_iff:
  "storeRows D ov s ps = [] \<longleftrightarrow> (\<forall>p\<in>set ps. Store p = s \<longrightarrow> parsedTriple D ov p = None)"
  by (simp add: storeRows_def map_filter_Nil_iff)

lemma storeSummaryList_iff:
  "(r \<in> set (storeSummaryList D lc ov ps) \<and> sumStore r = s) =
     (s \<notin> set prototypeNames \<and> storeRows D ov s ps \<noteq> [] \<and>
      r = storeRecord (s, rollup (storeRows D ov s ps)))"
proof
  assume a: "r \<in> set (storeSummaryList D lc ov ps) \<and> sumStore r = s"
  then obtain k acc where ka: "(k, acc) \<in> set (storeSummaryMap D ov ps)" "r = storeRecord (k, acc)"
    by (auto simp: storeSummaryList_def set_sortBy)
  have ks: "k = s" using a ka by (simp add: storeRecord_def)
  have "map_of (storeSummaryMap D ov ps) s = Some acc"
    using ka(1) ks distinct_storeSummaryMap [of D ov ps] by simp
  then show "s \<notin> set prototypeNames \<and> storeRows D ov s ps \<noteq> [] \<and>
      r = storeRecord (s, rollup (storeRows D ov s ps))"
    using ka(2) ks by (auto simp: map_of_storeSummaryMap split: if_splits)
next
  assume b: "s \<notin> set prototypeNames \<and> storeRows D ov s ps \<noteq> [] \<and>
      r = storeRecord (s, rollup (storeRows D ov s ps))"
  then have "map_of (storeSummaryMap D ov ps) s = Some (rollup (storeRows D ov s ps))"
    by (simp add: map_of_storeSummaryMap)
  then have "(s, rollup (storeRows D ov s ps)) \<in> set (storeSummaryMap D ov ps)"
    by (rule map_of_SomeD)
  then have "storeRecord (s, rollup (storeRows D ov s ps))
      \<in> storeRecord ` set (storeSummaryMap D ov ps)"
    by (rule imageI)
  moreover have "sumStore (storeRecord (s, rollup (storeRows D ov s ps))) = s"
    by (simp add: storeRecord_def)
  ultimately show "r \<in> set (storeSummaryList D lc ov ps) \<and> sumStore r = s"
    using b by (simp add: storeSummaryList_def set_sortBy)
qed

lemma distinct_storeSummaryList: "distinct (map sumStore (storeSummaryList D lc ov ps))"
proof -
  have "map sumStore (map storeRecord m) = map fst m" for m :: "(string \<times> storeAcc) list"
    by (induction m) (auto simp: storeRecord_def)
  then show ?thesis
    by (simp add: storeSummaryList_def distinct_map_sortBy distinct_storeSummaryMap del: map_map)
qed

section \<open>Verification: the summaries (C1, C2, C10)\<close>

lemma parsedTriple_Some_iff:
  "parsedTriple D ov p = Some (a, b, c) \<longleftrightarrow>
     parseDate D (StartDate p) = Some a \<and> parseDate D (FinishDate p) = Some b \<and>
     parseDateValue D (effectiveDueDateStr ov p) = Some c"
  by (auto simp: parsedTriple_def split: option.splits)

lemma parsedTriple_None_iff:
  "parsedTriple D ov p = None \<longleftrightarrow>
     parseDate D (StartDate p) = None \<or> parseDate D (FinishDate p) = None \<or>
     parseDateValue D (effectiveDueDateStr ov p) = None"
  by (auto simp: parsedTriple_def split: option.splits)

lemma set_map_filter: "set (List.map_filter f xs) = {y. \<exists>x\<in>set xs. f x = Some y}"
  by (induction xs) (auto simp: map_filter_def)

lemma set_storeRows:
  "set (storeRows D ov s ps) =
     {(a, b, c). \<exists>p\<in>set ps. Store p = s \<and> parseDate D (StartDate p) = Some a \<and>
        parseDate D (FinishDate p) = Some b \<and> parseDateValue D (effectiveDueDateStr ov p) = Some c}"
  by (auto simp: storeRows_def set_map_filter parsedTriple_Some_iff split: if_splits)

lemma parse_0701: "parseDate (localDate 0) ''2025-07-01'' = Some (20270 * DAY_MS)" by code_simp
lemma parse_0703: "parseDate (localDate 0) ''2025-07-03'' = Some (20272 * DAY_MS)" by code_simp
lemma parse_0710: "parseDate (localDate 0) ''2025-07-10'' = Some (20279 * DAY_MS)" by code_simp
lemma parse_0712: "parseDate (localDate 0) ''2025-07-12'' = Some (20281 * DAY_MS)" by code_simp
lemma parse_0715: "parseDate (localDate 0) ''2025-07-15'' = Some (20284 * DAY_MS)" by code_simp
lemma parse_0718: "parseDate (localDate 0) ''2025-07-18'' = Some (20287 * DAY_MS)" by code_simp
lemma parse_0720: "parseDate (localDate 0) ''2025-07-20'' = Some (20289 * DAY_MS)" by code_simp

lemma format_0701: "formatDate (20270 * DAY_MS) = ''2025-07-01''" by code_simp
lemma format_0715: "formatDate (20284 * DAY_MS) = ''2025-07-15''" by code_simp
lemma format_0720: "formatDate (20289 * DAY_MS) = ''2025-07-20''" by code_simp

lemma triple_X:
  "parsedTriple (localDate tz) Map.empty (summarize (localDate tz) Map.empty exampleX) =
     Some (20270 * DAY_MS - tz * 60000, 20279 * DAY_MS - tz * 60000, 20281 * DAY_MS - tz * 60000)"
  by (simp add: parsedTriple_def summarize_def exampleX_def effectiveDueDateStr_def orElse_def
      prototypeNames_def parseDateValue_def
      projRow.extend_def projSummary.fields_def parseDate_shift [of tz] parse_0701 parse_0710 parse_0712)

lemma triple_Y:
  "parsedTriple (localDate tz) Map.empty (summarize (localDate tz) Map.empty exampleY) =
     Some (20272 * DAY_MS - tz * 60000, 20289 * DAY_MS - tz * 60000, 20284 * DAY_MS - tz * 60000)"
  by (simp add: parsedTriple_def summarize_def exampleY_def effectiveDueDateStr_def orElse_def
      prototypeNames_def parseDateValue_def
      projRow.extend_def projSummary.fields_def parseDate_shift [of tz] parse_0703 parse_0720 parse_0715)

lemma store_X: "Store (summarize D ov exampleX) = ''Store-A''"
  by (simp add: summarize_def exampleX_def projRow.extend_def)

lemma store_Y: "Store (summarize D ov exampleY) = ''Store-A''"
  by (simp add: summarize_def exampleY_def projRow.extend_def)

lemma example_map:
  "ps = [summarize (localDate tz) Map.empty exampleX, summarize (localDate tz) Map.empty exampleY] \<or>
   ps = [summarize (localDate tz) Map.empty exampleY, summarize (localDate tz) Map.empty exampleX] \<Longrightarrow>
   storeSummaryMap (localDate tz) Map.empty ps =
     [(''Store-A'', \<lparr>accStartDate = 20270 * DAY_MS - tz * 60000,
                      accFinishDate = 20289 * DAY_MS - tz * 60000,
                      accDueDate = 20284 * DAY_MS - tz * 60000\<rparr>)]"
  by (auto simp: storeSummaryMap_def storeStep_take triple_X triple_Y store_X store_Y DAY_MS_def
      prototypeNames_def)

lemma example_list:
  assumes "- 1440 < tz" "tz \<le> 0"
  shows "storeSummaryList (localDate tz) lc Map.empty
           (projectSummaryList (localDate tz) lc' Map.empty [exampleX, exampleY]) =
         [\<lparr>sumStore = ''Store-A'', sumStartDate = ''2025-07-01'', sumFinishDate = ''2025-07-20'',
           sumDueDate = ''2025-07-15'', sumDaysVariance = - 5\<rparr>]"
proof -
  let ?ps = "projectSummaryList (localDate tz) lc' Map.empty [exampleX, exampleY]"
  have r: "0 \<le> - tz * 60000" "- tz * 60000 < DAY_MS"
    using assms by (simp_all add: DAY_MS_def)
  have f: "formatDate (k * DAY_MS - tz * 60000) = formatDate (k * DAY_MS)" for k
    using formatDate_same_day [OF r, of k] by simp
  have "?ps = [summarize (localDate tz) Map.empty exampleX, summarize (localDate tz) Map.empty exampleY] \<or>
        ?ps = [summarize (localDate tz) Map.empty exampleY, summarize (localDate tz) Map.empty exampleX]"
    by (simp add: projectSummaryList_def sortBy_two)
  then have "storeSummaryMap (localDate tz) Map.empty ?ps =
     [(''Store-A'', \<lparr>accStartDate = 20270 * DAY_MS - tz * 60000,
                      accFinishDate = 20289 * DAY_MS - tz * 60000,
                      accDueDate = 20284 * DAY_MS - tz * 60000\<rparr>)]"
    by (rule example_map)
  then show ?thesis
    by (simp add: storeSummaryList_def sortBy_one storeRecord_def f format_0701 format_0715
        format_0720 roundDays_iff) (simp add: DAY_MS_def)
qed

text \<open>
  C1, as amended.  A store whose name is not one of the names that every object inherits
  has a record in the store summary exactly when one of its projects has a start, a finish
  and an effective due date that all parse; the record is unique.  Over those projects (the
  projects of the store with an unparseable date are left out) it takes the earliest start,
  the latest finish and the latest effective due date, and it holds \<^verbatim>\<open>formatDate\<close> of each:
  the calendar day of that instant in UTC.  \<open>daysVariance\<close> is the rounded number of days
  from the latest finish to the latest due date.  With a local time zone at or behind UTC,
  Store-A with projects X and Y gives 2025-07-01, 2025-07-20, 2025-07-15 and \<open>- 5\<close>.
\<close>

theorem storeSummary_rollup:
  "(s \<notin> set prototypeNames \<longrightarrow>
      (r \<in> set (storeSummaryList D lc ov ps) \<and> sumStore r = s) =
      (storeRows D ov s ps \<noteq> [] \<and>
       r = \<lparr>sumStore = s,
            sumStartDate = formatDate (Min (set (map fst (storeRows D ov s ps)))),
            sumFinishDate = formatDate (Max (set (map (fst \<circ> snd) (storeRows D ov s ps)))),
            sumDueDate = formatDate (Max (set (map (snd \<circ> snd) (storeRows D ov s ps)))),
            sumDaysVariance =
              roundDays (Max (set (map (snd \<circ> snd) (storeRows D ov s ps))) -
                         Max (set (map (fst \<circ> snd) (storeRows D ov s ps))))\<rparr>))
   \<and> set (storeRows D ov s ps) =
       {(a, b, c). \<exists>p\<in>set ps. Store p = s \<and> parseDate D (StartDate p) = Some a \<and>
          parseDate D (FinishDate p) = Some b \<and>
          parseDateValue D (effectiveDueDateStr ov p) = Some c}
   \<and> distinct (map sumStore (storeSummaryList D lc ov ps))
   \<and> (- 1440 < tz \<and> tz \<le> 0 \<longrightarrow>
        storeSummaryList (localDate tz) lc Map.empty
          (projectSummaryList (localDate tz) lc' Map.empty [exampleX, exampleY]) =
        [\<lparr>sumStore = ''Store-A'', sumStartDate = ''2025-07-01'',
          sumFinishDate = ''2025-07-20'', sumDueDate = ''2025-07-15'',
          sumDaysVariance = - 5\<rparr>])"
proof (intro conjI impI)
  assume "s \<notin> set prototypeNames"
  then show "(r \<in> set (storeSummaryList D lc ov ps) \<and> sumStore r = s) =
      (storeRows D ov s ps \<noteq> [] \<and>
       r = \<lparr>sumStore = s,
            sumStartDate = formatDate (Min (set (map fst (storeRows D ov s ps)))),
            sumFinishDate = formatDate (Max (set (map (fst \<circ> snd) (storeRows D ov s ps)))),
            sumDueDate = formatDate (Max (set (map (snd \<circ> snd) (storeRows D ov s ps)))),
            sumDaysVariance =
              roundDays (Max (set (map (snd \<circ> snd) (storeRows D ov s ps))) -
                         Max (set (map (fst \<circ> snd) (storeRows D ov s ps))))\<rparr>)"
    unfolding storeSummaryList_iff by (simp add: storeRecord_def rollup_def)
next
  show "set (storeRows D ov s ps) =
       {(a, b, c). \<exists>p\<in>set ps. Store p = s \<and> parseDate D (StartDate p) = Some a \<and>
          parseDate D (FinishDate p) = Some b \<and>
          parseDateValue D (effectiveDueDateStr ov p) = Some c}"
    by (rule set_storeRows)
next
  show "distinct (map sumStore (storeSummaryList D lc ov ps))"
    by (rule distinct_storeSummaryList)
next
  assume "- 1440 < tz \<and> tz \<le> 0"
  then show "storeSummaryList (localDate tz) lc Map.empty
          (projectSummaryList (localDate tz) lc' Map.empty [exampleX, exampleY]) =
        [\<lparr>sumStore = ''Store-A'', sumStartDate = ''2025-07-01'',
          sumFinishDate = ''2025-07-20'', sumDueDate = ''2025-07-15'',
          sumDaysVariance = - 5\<rparr>]"
    by (simp add: example_list)
qed

text \<open>
  The example of C1 five hours behind UTC, and the record of Store-A read off the general
  part: the store has rows, so the record with the formatted extremes is in the summary.
\<close>

theorem storeSummary_rollup_witness:
  "''Store-A'' \<notin> set prototypeNames \<and>
   - 1440 < (- 300 :: int) \<and> (- 300 :: int) \<le> 0 \<and>
   storeRows (localDate 0) Map.empty ''Store-A''
     (projectSummaryList (localDate 0) compareCodes Map.empty [exampleX, exampleY]) =
     [(20270 * DAY_MS, 20279 * DAY_MS, 20281 * DAY_MS),
      (20272 * DAY_MS, 20289 * DAY_MS, 20284 * DAY_MS)] \<and>
   \<lparr>sumStore = ''Store-A'', sumStartDate = ''2025-07-01'', sumFinishDate = ''2025-07-20'',
     sumDueDate = ''2025-07-15'', sumDaysVariance = - 5\<rparr>
     \<in> set (storeSummaryList (localDate 0) compareCodes Map.empty
         (projectSummaryList (localDate 0) compareCodes Map.empty [exampleX, exampleY])) \<and>
   storeSummaryList (localDate (- 300)) compareCodes Map.empty
     (projectSummaryList (localDate (- 300)) compareCodes Map.empty [exampleX, exampleY]) =
   [\<lparr>sumStore = ''Store-A'', sumStartDate = ''2025-07-01'',
     sumFinishDate = ''2025-07-20'', sumDueDate = ''2025-07-15'',
     sumDaysVariance = - 5\<rparr>]"
proof -
  let ?ps = "projectSummaryList (localDate 0) compareCodes Map.empty [exampleX, exampleY]"
  let ?rec = "\<lparr>sumStore = ''Store-A'', sumStartDate = ''2025-07-01'',
     sumFinishDate = ''2025-07-20'', sumDueDate = ''2025-07-15'', sumDaysVariance = - 5\<rparr>"
  have n: "''Store-A'' \<notin> set prototypeNames" by code_simp
  have h: "- 1440 < (- 300 :: int) \<and> (- 300 :: int) \<le> 0" by simp
  have rows: "storeRows (localDate 0) Map.empty ''Store-A'' ?ps =
     [(20270 * DAY_MS, 20279 * DAY_MS, 20281 * DAY_MS),
      (20272 * DAY_MS, 20289 * DAY_MS, 20284 * DAY_MS)]"
    by code_simp
  have ne: "storeRows (localDate 0) Map.empty ''Store-A'' ?ps \<noteq> []"
    unfolding rows by simp
  have ev: "?rec =
       \<lparr>sumStore = ''Store-A'',
        sumStartDate = formatDate (Min (set (map fst (storeRows (localDate 0) Map.empty ''Store-A'' ?ps)))),
        sumFinishDate = formatDate (Max (set (map (fst \<circ> snd) (storeRows (localDate 0) Map.empty ''Store-A'' ?ps)))),
        sumDueDate = formatDate (Max (set (map (snd \<circ> snd) (storeRows (localDate 0) Map.empty ''Store-A'' ?ps)))),
        sumDaysVariance =
          roundDays (Max (set (map (snd \<circ> snd) (storeRows (localDate 0) Map.empty ''Store-A'' ?ps))) -
                     Max (set (map (fst \<circ> snd) (storeRows (localDate 0) Map.empty ''Store-A'' ?ps))))\<rparr>"
  proof -
    have m1: "Min (set (map fst [(20270 * DAY_MS, 20279 * DAY_MS, 20281 * DAY_MS),
        (20272 * DAY_MS, 20289 * DAY_MS, 20284 * DAY_MS)])) = 20270 * DAY_MS"
      by (simp add: DAY_MS_def)
    have m2: "Max (set (map (fst \<circ> snd) [(20270 * DAY_MS, 20279 * DAY_MS, 20281 * DAY_MS),
        (20272 * DAY_MS, 20289 * DAY_MS, 20284 * DAY_MS)])) = 20289 * DAY_MS"
      by (simp add: DAY_MS_def)
    have m3: "Max (set (map (snd \<circ> snd) [(20270 * DAY_MS, 20279 * DAY_MS, 20281 * DAY_MS),
        (20272 * DAY_MS, 20289 * DAY_MS, 20284 * DAY_MS)])) = 20284 * DAY_MS"
      by (simp add: DAY_MS_def)
    have rd: "roundDays (20284 * DAY_MS - 20289 * DAY_MS) = - 5" by code_simp
    show ?thesis
      unfolding rows m1 m2 m3 rd format_0701 format_0715 format_0720 by simp
  qed
  note t = storeSummary_rollup [where s = "''Store-A''" and r = ?rec and D = "localDate 0"
      and lc = compareCodes and lc' = compareCodes and ov = Map.empty and ps = ?ps
      and tz = "- 300"]
  have iff: "(?rec \<in> set (storeSummaryList (localDate 0) compareCodes Map.empty ?ps) \<and>
       sumStore ?rec = ''Store-A'') =
      (storeRows (localDate 0) Map.empty ''Store-A'' ?ps \<noteq> [] \<and>
       ?rec =
       \<lparr>sumStore = ''Store-A'',
        sumStartDate = formatDate (Min (set (map fst (storeRows (localDate 0) Map.empty ''Store-A'' ?ps)))),
        sumFinishDate = formatDate (Max (set (map (fst \<circ> snd) (storeRows (localDate 0) Map.empty ''Store-A'' ?ps)))),
        sumDueDate = formatDate (Max (set (map (snd \<circ> snd) (storeRows (localDate 0) Map.empty ''Store-A'' ?ps)))),
        sumDaysVariance =
          roundDays (Max (set (map (snd \<circ> snd) (storeRows (localDate 0) Map.empty ''Store-A'' ?ps))) -
                     Max (set (map (fst \<circ> snd) (storeRows (localDate 0) Map.empty ''Store-A'' ?ps))))\<rparr>)"
    using t [THEN conjunct1] n by (rule mp)
  have mem: "?rec \<in> set (storeSummaryList (localDate 0) compareCodes Map.empty ?ps)"
    using iff ne ev by blast
  have ex: "storeSummaryList (localDate (- 300)) compareCodes Map.empty
     (projectSummaryList (localDate (- 300)) compareCodes Map.empty [exampleX, exampleY]) =
     [?rec]"
    using t [THEN conjunct2, THEN conjunct2, THEN conjunct2] h by (rule mp)
  show ?thesis using n h rows mem ex by blast
qed

text \<open>
  C1 as stated fails: project X with no finish date has the earliest start date of
  Store-A, and the store's start date is project Y's; and five and a half hours ahead of
  UTC the dates of the example come out one day early.
\<close>

theorem storeSummary_rollup_counterexample:
  "parseDate (localDate 0) (StartDate exampleXunfinished) = Some (20270 * DAY_MS) \<and>
   Store exampleXunfinished = ''Store-A'' \<and>
   formatDate (20270 * DAY_MS) = ''2025-07-01'' \<and>
   storeSummaryList (localDate 0) compareCodes noOverrides
     (projectSummaryList (localDate 0) compareCodes noOverrides [exampleXunfinished, exampleY]) =
   [\<lparr>sumStore = ''Store-A'', sumStartDate = ''2025-07-03'',
     sumFinishDate = ''2025-07-20'', sumDueDate = ''2025-07-15'',
     sumDaysVariance = - 5\<rparr>] \<and>
   storeSummaryList (localDate 330) compareCodes noOverrides
     (projectSummaryList (localDate 330) compareCodes noOverrides [exampleX, exampleY]) =
   [\<lparr>sumStore = ''Store-A'', sumStartDate = ''2025-06-30'',
     sumFinishDate = ''2025-07-19'', sumDueDate = ''2025-07-14'',
     sumDaysVariance = - 5\<rparr>]"
  by code_simp

lemma summarize_fields:
  "Project (summarize D ov p) = Project p" "Store (summarize D ov p) = Store p"
  "StartDate (summarize D ov p) = StartDate p" "DueDate (summarize D ov p) = DueDate p"
  "FinishDate (summarize D ov p) = FinishDate p"
  "OriginalStartDate (summarize D ov p) = StartDate p"
  "daysVariance (summarize D ov p) = diffDays D ov p"
  by (simp_all add: summarize_def projRow.extend_def projSummary.fields_def)

lemma effectiveDueDateStr_summarize:
  "effectiveDueDateStr ov' (summarize D ov p) = effectiveDueDateStr ov' p"
  by (simp add: effectiveDueDateStr_def summarize_fields)

lemma set_projectSummaryList:
  "set (projectSummaryList D lc ov rows) = summarize D ov ` set rows"
  by (simp add: projectSummaryList_def set_sortBy)

lemma length_projectSummaryList: "length (projectSummaryList D lc ov rows) = length rows"
  by (simp add: projectSummaryList_def length_sortBy)

lemma diffDays_shift: "diffDays (localDate tz) ov p = diffDays (localDate 0) ov p"
  by (simp add: diffDays_def parseDate_shift [of tz] parseDateValue_shift [of tz]
      split: option.splits)

text \<open>
  C2, as amended.  The effective due date of a project summary row is the end-date
  override of its project when there is one and it is not the empty string; it is the
  remote row's \<open>DueDate\<close> when the override is the empty string, and when there is none
  and the project's name is not one of the names that every object inherits.
  \<open>daysVariance\<close> is the number of days from the finish date to the effective due date,
  rounded to the nearest integer, when both parse, and 0 otherwise; no input raises an
  error.  The summary has one row for each remote row.  Due 2025-07-15 and finished
  2025-07-12 gives 3; finished 2025-07-18 gives \<open>- 3\<close>.
\<close>

theorem projectSummary_variance:
  "(endDateOverrides (Project p) = Some s \<and> s \<noteq> [] \<longrightarrow>
      effectiveDueDateStr endDateOverrides p = Str s)
   \<and> (endDateOverrides (Project p) = Some [] \<or>
       endDateOverrides (Project p) = None \<and> Project p \<notin> set prototypeNames \<longrightarrow>
        effectiveDueDateStr endDateOverrides p = Str (DueDate p))
   \<and> (parseDateValue D (effectiveDueDateStr endDateOverrides p) = Some due \<and>
        parseDate D (FinishDate p) = Some fin \<longrightarrow>
        daysVariance (summarize D endDateOverrides p) = roundDays (due - fin) \<and>
        (2 * roundDays (due - fin) - 1) * DAY_MS \<le> 2 * (due - fin) \<and>
        2 * (due - fin) < (2 * roundDays (due - fin) + 1) * DAY_MS)
   \<and> (parseDateValue D (effectiveDueDateStr endDateOverrides p) = None \<or>
        parseDate D (FinishDate p) = None \<longrightarrow>
        daysVariance (summarize D endDateOverrides p) = 0)
   \<and> set (projectSummaryList D lc endDateOverrides rows) = summarize D endDateOverrides ` set rows
   \<and> length (projectSummaryList D lc endDateOverrides rows) = length rows
   \<and> daysVariance (summarize (localDate tz) Map.empty exampleEarly) = 3
   \<and> daysVariance (summarize (localDate tz) Map.empty exampleLate) = - 3"
proof (intro conjI impI)
  show "effectiveDueDateStr endDateOverrides p = Str s"
    if "endDateOverrides (Project p) = Some s \<and> s \<noteq> []"
    using that by (simp add: effectiveDueDateStr_def orElse_def)
  show "effectiveDueDateStr endDateOverrides p = Str (DueDate p)"
    if "endDateOverrides (Project p) = Some [] \<or>
        endDateOverrides (Project p) = None \<and> Project p \<notin> set prototypeNames"
    using that by (auto simp: effectiveDueDateStr_def orElse_def)
  show "daysVariance (summarize D endDateOverrides p) = roundDays (due - fin)"
    if "parseDateValue D (effectiveDueDateStr endDateOverrides p) = Some due \<and>
        parseDate D (FinishDate p) = Some fin"
    using that by (simp add: summarize_fields diffDays_def)
  show "(2 * roundDays (due - fin) - 1) * DAY_MS \<le> 2 * (due - fin)"
    using roundDays_iff [of "due - fin" "roundDays (due - fin)"] by simp
  show "2 * (due - fin) < (2 * roundDays (due - fin) + 1) * DAY_MS"
    using roundDays_iff [of "due - fin" "roundDays (due - fin)"] by simp
  show "daysVariance (summarize D endDateOverrides p) = 0"
    if "parseDateValue D (effectiveDueDateStr endDateOverrides p) = None \<or>
        parseDate D (FinishDate p) = None"
    using that by (auto simp: summarize_fields diffDays_def split: option.splits)
  show "set (projectSummaryList D lc endDateOverrides rows) = summarize D endDateOverrides ` set rows"
    by (rule set_projectSummaryList)
  show "length (projectSummaryList D lc endDateOverrides rows) = length rows"
    by (rule length_projectSummaryList)
  have "diffDays (localDate 0) Map.empty exampleEarly = 3" by code_simp
  then show "daysVariance (summarize (localDate tz) Map.empty exampleEarly) = 3"
    by (simp add: summarize_fields diffDays_shift [of tz])
  have "diffDays (localDate 0) Map.empty exampleLate = - 3" by code_simp
  then show "daysVariance (summarize (localDate tz) Map.empty exampleLate) = - 3"
    by (simp add: summarize_fields diffDays_shift [of tz])
qed

text \<open>
  An override that is used, a project with no override, and a finish date that does not
  parse.
\<close>

theorem projectSummary_variance_witness:
  "exampleOverride (Project exampleOverridden) = Some ''2025-07-15'' \<and>
   effectiveDueDateStr exampleOverride exampleOverridden = Str ''2025-07-15'' \<and>
   parseDateValue (localDate 0) (effectiveDueDateStr exampleOverride exampleOverridden) = Some (20284 * DAY_MS) \<and>
   parseDate (localDate 0) (FinishDate exampleOverridden) = Some (20281 * DAY_MS) \<and>
   daysVariance (summarize (localDate 0) exampleOverride exampleOverridden) = 3 \<and>
   noOverrides (Project exampleEarly) = None \<and> Project exampleEarly \<notin> set prototypeNames \<and>
   effectiveDueDateStr noOverrides exampleEarly = Str ''2025-07-15'' \<and>
   parseDate (localDate 0) (FinishDate exampleXunfinished) = None \<and>
   daysVariance (summarize (localDate 0) Map.empty exampleXunfinished) = 0"
proof -
  have a: "exampleOverride (Project exampleOverridden) = Some ''2025-07-15'' \<and> ''2025-07-15'' \<noteq> []"
    by code_simp
  have b: "parseDate (localDate 0) ''2025-07-15'' = Some (20284 * DAY_MS)" by code_simp
  have c: "parseDate (localDate 0) (FinishDate exampleOverridden) = Some (20281 * DAY_MS)" by code_simp
  have d: "parseDate (localDate 0) (FinishDate exampleXunfinished) = None" by code_simp
  have r: "roundDays (20284 * DAY_MS - 20281 * DAY_MS) = 3" by code_simp
  have n: "noOverrides (Project exampleEarly) = None \<and> Project exampleEarly \<notin> set prototypeNames"
    by code_simp
  have dd: "DueDate exampleEarly = ''2025-07-15''" by code_simp
  note t1 = projectSummary_variance [where p = exampleOverridden and endDateOverrides = exampleOverride
      and s = "''2025-07-15''" and D = "localDate 0" and due = "20284 * DAY_MS" and fin = "20281 * DAY_MS"]
  note t2 = projectSummary_variance [where p = exampleXunfinished and endDateOverrides = Map.empty
      and D = "localDate 0"]
  note t3 = projectSummary_variance [where p = exampleEarly and endDateOverrides = noOverrides]
  have e: "effectiveDueDateStr exampleOverride exampleOverridden = Str ''2025-07-15''"
    using t1 a by blast
  have e': "parseDateValue (localDate 0) (effectiveDueDateStr exampleOverride exampleOverridden) =
      Some (20284 * DAY_MS)"
    unfolding e using b by (simp add: parseDateValue_def)
  have f: "daysVariance (summarize (localDate 0) exampleOverride exampleOverridden) = 3"
    using t1 e' c r by simp
  have g: "daysVariance (summarize (localDate 0) Map.empty exampleXunfinished) = 0"
    using t2 d by blast
  have k: "effectiveDueDateStr noOverrides exampleEarly = Str ''2025-07-15''"
    using t3 n dd by simp
  show ?thesis using a c d e e' f g k n by simp
qed

text \<open>
  C2 as stated fails: an override is present, the empty string of a cleared date input; the
  effective due date is the remote row's and the variance is 3, not that of an unparseable
  due date.
\<close>

theorem projectSummary_variance_counterexample:
  "exampleCleared (Project exampleEarly) = Some [] \<and>
   effectiveDueDateStr exampleCleared exampleEarly = Str ''2025-07-15'' \<and>
   parseDate (localDate 0) [] = None \<and>
   daysVariance (summarize (localDate 0) exampleCleared exampleEarly) = 3"
  by code_simp

lemma parsedTriple_summarize:
  "parsedTriple D ov (summarize D ov q) = None \<longleftrightarrow>
     parseDate D (StartDate q) = None \<or> parseDate D (FinishDate q) = None \<or>
     parseDateValue D (effectiveDueDateStr ov q) = None"
  by (simp add: parsedTriple_None_iff summarize_fields effectiveDueDateStr_summarize)

text \<open>
  C10, as amended.  A project summary row whose start, finish or effective due date fails
  to parse leaves the store accumulator unchanged.  A store all of whose projects have such
  a date has no record in the store summary, while every project has its row in the project
  summary; that row's \<open>daysVariance\<close> is 0 when it is the finish or the effective due date
  that fails to parse.
\<close>

theorem storeSummary_skips_unparseable:
  "(parseDate D (StartDate p) = None \<or> parseDate D (FinishDate p) = None \<or>
    parseDateValue D (effectiveDueDateStr ov p) = None \<longrightarrow> storeStep D ov m p = m)
   \<and> ((\<forall>q\<in>set rows. Store q = s \<longrightarrow>
          parseDate D (StartDate q) = None \<or> parseDate D (FinishDate q) = None \<or>
          parseDateValue D (effectiveDueDateStr ov q) = None) \<longrightarrow>
        (\<forall>r\<in>set (storeSummaryList D lc ov (projectSummaryList D lc' ov rows)). sumStore r \<noteq> s))
   \<and> (\<forall>q\<in>set rows. summarize D ov q \<in> set (projectSummaryList D lc' ov rows) \<and>
          (parseDate D (FinishDate q) = None \<or> parseDateValue D (effectiveDueDateStr ov q) = None \<longrightarrow>
           daysVariance (summarize D ov q) = 0))"
proof (intro conjI impI ballI)
  show "storeStep D ov m p = m"
    if "parseDate D (StartDate p) = None \<or> parseDate D (FinishDate p) = None \<or>
        parseDateValue D (effectiveDueDateStr ov p) = None"
    using that by (simp add: storeStep_skip parsedTriple_None_iff)
next
  fix r
  assume a: "\<forall>q\<in>set rows. Store q = s \<longrightarrow>
          parseDate D (StartDate q) = None \<or> parseDate D (FinishDate q) = None \<or>
          parseDateValue D (effectiveDueDateStr ov q) = None"
    and r: "r \<in> set (storeSummaryList D lc ov (projectSummaryList D lc' ov rows))"
  have "storeRows D ov s (projectSummaryList D lc' ov rows) = []"
    unfolding storeRows_empty_iff set_projectSummaryList
    using a by (auto simp: parsedTriple_summarize summarize_fields)
  then show "sumStore r \<noteq> s"
    using r storeSummaryList_iff [of r D lc ov "projectSummaryList D lc' ov rows" s] by blast
next
  fix q
  assume q: "q \<in> set rows"
  then show "summarize D ov q \<in> set (projectSummaryList D lc' ov rows)"
    by (simp add: set_projectSummaryList)
  show "daysVariance (summarize D ov q) = 0"
    if "parseDate D (FinishDate q) = None \<or> parseDateValue D (effectiveDueDateStr ov q) = None"
    using that by (auto simp: summarize_fields diffDays_def split: option.splits)
qed

text \<open>A store whose only project has no finish date.\<close>

theorem storeSummary_skips_unparseable_witness:
  "parseDate (localDate 0) (FinishDate exampleXunfinished) = None \<and>
   storeSummaryList (localDate 0) compareCodes Map.empty
     (projectSummaryList (localDate 0) compareCodes Map.empty [exampleXunfinished]) = [] \<and>
   summarize (localDate 0) Map.empty exampleXunfinished
     \<in> set (projectSummaryList (localDate 0) compareCodes Map.empty [exampleXunfinished]) \<and>
   daysVariance (summarize (localDate 0) Map.empty exampleXunfinished) = 0"
proof -
  have d: "parseDate (localDate 0) (FinishDate exampleXunfinished) = None" by code_simp
  note t = storeSummary_skips_unparseable [where D = "localDate 0" and ov = Map.empty
      and rows = "[exampleXunfinished]" and s = "''Store-A''" and lc = compareCodes
      and lc' = compareCodes]
  have n: "\<forall>r\<in>set (storeSummaryList (localDate 0) compareCodes Map.empty
     (projectSummaryList (localDate 0) compareCodes Map.empty [exampleXunfinished])). sumStore r \<noteq> ''Store-A''"
    using t d by simp
  have m: "summarize (localDate 0) Map.empty exampleXunfinished
     \<in> set (projectSummaryList (localDate 0) compareCodes Map.empty [exampleXunfinished]) \<and>
     daysVariance (summarize (localDate 0) Map.empty exampleXunfinished) = 0"
    using t d by simp
  have "storeSummaryList (localDate 0) compareCodes Map.empty
     (projectSummaryList (localDate 0) compareCodes Map.empty [exampleXunfinished]) = []"
    by code_simp
  then show ?thesis using d m by simp
qed

text \<open>
  C10 as stated fails: a project with no start date is left out of the store summary, and
  its variance in the project summary is 3, not 0.
\<close>

theorem storeSummary_skips_unparseable_counterexample:
  "parseDate (localDate 0) (StartDate exampleNoStart) = None \<and>
   storeSummaryList (localDate 0) compareCodes noOverrides
     (projectSummaryList (localDate 0) compareCodes noOverrides [exampleNoStart]) = [] \<and>
   map daysVariance (projectSummaryList (localDate 0) compareCodes noOverrides [exampleNoStart]) = [3]"
  by code_simp

section \<open>Verification: the timeline domain (C5)\<close>

lemma foldl_min: "foldl min t ts = Min (set (t # ts))"
proof (induction ts arbitrary: t)
  case Nil
  then show ?case by simp
next
  case (Cons a ts)
  have "Min (insert (min t a) (set ts)) = Min (insert t (insert a (set ts)))"
    by (cases "ts = []") (simp_all add: min.assoc)
  then show ?case by (simp add: Cons.IH)
qed

lemma foldl_max: "foldl max t ts = Max (set (t # ts))"
proof (induction ts arbitrary: t)
  case Nil
  then show ?case by simp
next
  case (Cons a ts)
  have "Max (insert (max t a) (set ts)) = Max (insert t (insert a (set ts)))"
    by (cases "ts = []") (simp_all add: max.assoc)
  then show ?case by (simp add: Cons.IH)
qed

lemma shiftDays_fixedZone: "shiftDays (fixedZone tz) d n = d + n * DAY_MS"
  by (simp add: shiftDays_def fixedZone_def)

lemma zoneDate_fixedZone: "zoneDate (fixedZone tz) = localDate tz"
  by (rule ext) (simp add: zoneDate_def fixedZone_def localDate_shift [of tz] option.map_comp comp_def)

text \<open>What \<^verbatim>\<open>parseDate(overrides[name] || str)\<close> parses.\<close>

lemma resolved_iff:
  "parseDateValue D (orElse ov k dflt) = Some t \<longleftrightarrow>
     (\<exists>s. ov k = Some s \<and> s \<noteq> [] \<and> parseDate D s = Some t) \<or>
     (ov k = Some [] \<or> ov k = None \<and> k \<notin> set prototypeNames) \<and> parseDate D dflt = Some t"
  by (cases "ov k") (auto simp: orElse_def)

lemma set_validTimestamps:
  "set (validTimestamps D sOv eOv projects) =
     {t. \<exists>p\<in>set projects.
           parseDate D (OriginalStartDate p) = Some t \<or> parseDate D (DueDate p) = Some t \<or>
           parseDateValue D (orElse sOv (Project p) (StartDate p)) = Some t \<or>
           parseDateValue D (orElse eOv (Project p) (FinishDate p)) = Some t}"
  unfolding validTimestamps_def set_map_filter
  by (simp add: eq_commute [of "Some _"])

lemma ganttDomain_Some:
  assumes "validTimestamps D sOv eOv projects \<noteq> []"
  shows "ganttDomain Z D sOv eOv projects =
           Some (shiftDays Z (Min (set (validTimestamps D sOv eOv projects))) (- 7),
                 shiftDays Z (Max (set (validTimestamps D sOv eOv projects))) 7)"
proof -
  have "projects \<noteq> []" using assms by (auto simp: validTimestamps_def map_filter_def)
  then show ?thesis
    using assms
    by (cases "validTimestamps D sOv eOv projects")
       (simp_all add: ganttDomain_def foldl_min foldl_max)
qed

lemma ganttDomain_None:
  "validTimestamps D sOv eOv projects = [] \<Longrightarrow> ganttDomain Z D sOv eOv projects = None"
  by (simp add: ganttDomain_def)

lemma ganttDomain_shift_example:
  "ganttDomain (fixedZone tz) (localDate tz) Map.empty Map.empty [exampleJuly, exampleJuly2] =
     Some (20263 * DAY_MS - tz * 60000, 20307 * DAY_MS - tz * 60000)"
proof -
  have p: "parseDate (localDate 0) ''2025-07-01'' = Some (20270 * DAY_MS)"
     "parseDate (localDate 0) ''2025-07-05'' = Some (20274 * DAY_MS)"
     "parseDate (localDate 0) ''2025-07-10'' = Some (20279 * DAY_MS)"
     "parseDate (localDate 0) ''2025-07-15'' = Some (20284 * DAY_MS)"
     "parseDate (localDate 0) ''2025-07-20'' = Some (20289 * DAY_MS)"
     "parseDate (localDate 0) ''2025-07-31'' = Some (20300 * DAY_MS)"
    by code_simp+
  have "validTimestamps (localDate tz) Map.empty Map.empty [exampleJuly, exampleJuly2] =
     map (\<lambda>k. k * DAY_MS - tz * 60000) [20270, 20300, 20274, 20289, 20279, 20284, 20279]"
    by (simp add: validTimestamps_def exampleJuly_def exampleJuly2_def orElse_def map_filter_def
        prototypeNames_def parseDate_shift [of tz] p parseDate_empty)
  then show ?thesis
    by (simp add: ganttDomain_def shiftDays_fixedZone DAY_MS_def)
qed

text \<open>
  C5, as amended.  The dates of the domain are, for every project, its original start and
  its original due date, its start-date override when that is not empty and otherwise its
  start date, its end-date override when that is not empty and otherwise its finish date
  (a project with no override whose name is one of the names that every object inherits
  has no such fallback) -- those of them that parse.  The domain runs from the least of
  their time values moved seven calendar days back to the greatest moved seven calendar
  days forward, the local time of day kept; in a zone with a fixed offset that is seven
  times 24 hours.  When no date parses there is no domain, nothing is rendered, and no
  error is raised.  Projects that span 2025-07-01 to 2025-07-31 give the local midnights of
  2025-06-24 and 2025-08-07, in every zone with a fixed offset.
\<close>

theorem ganttDomain_padded:
  "set (validTimestamps D sOv eOv projects) =
     {t. \<exists>p\<in>set projects.
           parseDate D (OriginalStartDate p) = Some t \<or> parseDate D (DueDate p) = Some t \<or>
           (\<exists>s. sOv (Project p) = Some s \<and> s \<noteq> [] \<and> parseDate D s = Some t) \<or>
           (sOv (Project p) = Some [] \<or>
            sOv (Project p) = None \<and> Project p \<notin> set prototypeNames) \<and>
             parseDate D (StartDate p) = Some t \<or>
           (\<exists>s. eOv (Project p) = Some s \<and> s \<noteq> [] \<and> parseDate D s = Some t) \<or>
           (eOv (Project p) = Some [] \<or>
            eOv (Project p) = None \<and> Project p \<notin> set prototypeNames) \<and>
             parseDate D (FinishDate p) = Some t}
   \<and> (validTimestamps D sOv eOv projects \<noteq> [] \<longrightarrow>
        ganttDomain Z D sOv eOv projects =
          Some (utc Z (localTime Z (Min (set (validTimestamps D sOv eOv projects))) - 7 * DAY_MS),
                utc Z (localTime Z (Max (set (validTimestamps D sOv eOv projects))) + 7 * DAY_MS))
        \<and> ganttDomain (fixedZone tz) D sOv eOv projects =
          Some (Min (set (validTimestamps D sOv eOv projects)) - 7 * DAY_MS,
                Max (set (validTimestamps D sOv eOv projects)) + 7 * DAY_MS))
   \<and> (validTimestamps D sOv eOv projects = [] \<longrightarrow>
        ganttDomain Z D sOv eOv projects = None \<and> \<not> ganttRenders Z D sOv eOv projects width)
   \<and> ganttDomain (fixedZone tz) (localDate tz) Map.empty Map.empty [exampleJuly, exampleJuly2] =
        Some (20263 * DAY_MS - tz * 60000, 20307 * DAY_MS - tz * 60000)
   \<and> parseDate (localDate tz) ''2025-06-24'' = Some (20263 * DAY_MS - tz * 60000)
   \<and> parseDate (localDate tz) ''2025-08-07'' = Some (20307 * DAY_MS - tz * 60000)"
proof (intro conjI impI)
  show "set (validTimestamps D sOv eOv projects) =
     {t. \<exists>p\<in>set projects.
           parseDate D (OriginalStartDate p) = Some t \<or> parseDate D (DueDate p) = Some t \<or>
           (\<exists>s. sOv (Project p) = Some s \<and> s \<noteq> [] \<and> parseDate D s = Some t) \<or>
           (sOv (Project p) = Some [] \<or>
            sOv (Project p) = None \<and> Project p \<notin> set prototypeNames) \<and>
             parseDate D (StartDate p) = Some t \<or>
           (\<exists>s. eOv (Project p) = Some s \<and> s \<noteq> [] \<and> parseDate D s = Some t) \<or>
           (eOv (Project p) = Some [] \<or>
            eOv (Project p) = None \<and> Project p \<notin> set prototypeNames) \<and>
             parseDate D (FinishDate p) = Some t}"
    unfolding set_validTimestamps resolved_iff by blast
next
  assume ne: "validTimestamps D sOv eOv projects \<noteq> []"
  show "ganttDomain Z D sOv eOv projects =
          Some (utc Z (localTime Z (Min (set (validTimestamps D sOv eOv projects))) - 7 * DAY_MS),
                utc Z (localTime Z (Max (set (validTimestamps D sOv eOv projects))) + 7 * DAY_MS))"
    using ganttDomain_Some [OF ne, of Z] by (simp add: shiftDays_def)
  show "ganttDomain (fixedZone tz) D sOv eOv projects =
          Some (Min (set (validTimestamps D sOv eOv projects)) - 7 * DAY_MS,
                Max (set (validTimestamps D sOv eOv projects)) + 7 * DAY_MS)"
    using ganttDomain_Some [OF ne, of "fixedZone tz"] by (simp add: shiftDays_fixedZone)
next
  assume e: "validTimestamps D sOv eOv projects = []"
  show "ganttDomain Z D sOv eOv projects = None"
    using e by (rule ganttDomain_None)
  show "\<not> ganttRenders Z D sOv eOv projects width"
    using e by (simp add: ganttRenders_def ganttDomain_None)
next
  show "ganttDomain (fixedZone tz) (localDate tz) Map.empty Map.empty [exampleJuly, exampleJuly2] =
        Some (20263 * DAY_MS - tz * 60000, 20307 * DAY_MS - tz * 60000)"
    by (rule ganttDomain_shift_example)
  have "parseDate (localDate 0) ''2025-06-24'' = Some (20263 * DAY_MS)" by code_simp
  then show "parseDate (localDate tz) ''2025-06-24'' = Some (20263 * DAY_MS - tz * 60000)"
    by (simp add: parseDate_shift [of tz])
  have "parseDate (localDate 0) ''2025-08-07'' = Some (20307 * DAY_MS)" by code_simp
  then show "parseDate (localDate tz) ''2025-08-07'' = Some (20307 * DAY_MS - tz * 60000)"
    by (simp add: parseDate_shift [of tz])
qed

text \<open>
  One project from 2025-07-01 to 2025-07-31, alone and with an end-date override of
  2025-08-10, which moves the end of the domain to 2025-08-17; one with no date at all; and
  a project planned from 2025-10-01 to 2025-10-20 in a zone whose clocks go back an hour on
  2025-10-26: the domain ends at the local midnight of 2025-10-27, which is 169 hours after
  that of 2025-10-20.
\<close>

theorem ganttDomain_padded_witness:
  "validTimestamps (localDate 0) Map.empty Map.empty [exampleJuly] =
     [20270 * DAY_MS, 20300 * DAY_MS, 20274 * DAY_MS, 20289 * DAY_MS] \<and>
   ganttDomain (fixedZone 0) (localDate 0) Map.empty Map.empty [exampleJuly] =
     Some (20263 * DAY_MS, 20307 * DAY_MS) \<and>
   20310 * DAY_MS \<in> set (validTimestamps (localDate 0) Map.empty
       (Map.empty(''P'' \<mapsto> ''2025-08-10'')) [exampleJuly]) \<and>
   ganttDomain (fixedZone 0) (localDate 0) Map.empty (Map.empty(''P'' \<mapsto> ''2025-08-10''))
       [exampleJuly] = Some (20263 * DAY_MS, 20317 * DAY_MS) \<and>
   validTimestamps (localDate 0) Map.empty Map.empty [exampleJuly\<lparr>DueDate := [], StartDate := [], FinishDate := [], OriginalStartDate := []\<rparr>] = [] \<and>
   \<not> ganttRenders (fixedZone 0) (localDate 0) Map.empty Map.empty
       [exampleJuly\<lparr>DueDate := [], StartDate := [], FinishDate := [], OriginalStartDate := []\<rparr>] 800 \<and>
   validTimestamps (zoneDate exampleAutumn) Map.empty Map.empty [exampleOctober] =
     [20362 * DAY_MS - 3600000, 20381 * DAY_MS - 3600000, 20362 * DAY_MS - 3600000,
      20371 * DAY_MS - 3600000] \<and>
   ganttDomain exampleAutumn (zoneDate exampleAutumn) Map.empty Map.empty [exampleOctober] =
     Some (20355 * DAY_MS - 3600000, 20388 * DAY_MS) \<and>
   20388 * DAY_MS - (20381 * DAY_MS - 3600000) = 169 * 3600000"
proof -
  let ?none = "[exampleJuly\<lparr>DueDate := [], StartDate := [], FinishDate := [], OriginalStartDate := []\<rparr>]"
  let ?ov = "Map.empty(''P'' \<mapsto> ''2025-08-10'')"
  have v: "validTimestamps (localDate 0) Map.empty Map.empty [exampleJuly] =
     [20270 * DAY_MS, 20300 * DAY_MS, 20274 * DAY_MS, 20289 * DAY_MS]"
    by code_simp
  have e: "validTimestamps (localDate 0) Map.empty Map.empty ?none = []"
    by code_simp
  have a: "validTimestamps (zoneDate exampleAutumn) Map.empty Map.empty [exampleOctober] =
     [20362 * DAY_MS - 3600000, 20381 * DAY_MS - 3600000, 20362 * DAY_MS - 3600000,
      20371 * DAY_MS - 3600000]"
    by code_simp
  note t1 = ganttDomain_padded [where D = "localDate 0" and sOv = Map.empty and eOv = Map.empty
      and projects = "[exampleJuly]" and tz = 0 and Z = "fixedZone 0"]
  note t2 = ganttDomain_padded [where D = "localDate 0" and sOv = Map.empty and eOv = Map.empty
      and projects = ?none and width = 800 and Z = "fixedZone 0"]
  note t3 = ganttDomain_padded [where D = "zoneDate exampleAutumn" and sOv = Map.empty
      and eOv = Map.empty and projects = "[exampleOctober]" and Z = exampleAutumn]
  note t4 = ganttDomain_padded [where D = "localDate 0" and sOv = Map.empty and eOv = ?ov
      and projects = "[exampleJuly]" and tz = 0 and Z = "fixedZone 0"]
  have "validTimestamps (localDate 0) Map.empty Map.empty [exampleJuly] \<noteq> []"
    unfolding v by simp
  with t1 have "ganttDomain (fixedZone 0) (localDate 0) Map.empty Map.empty [exampleJuly] =
     Some (Min (set (validTimestamps (localDate 0) Map.empty Map.empty [exampleJuly])) - 7 * DAY_MS,
           Max (set (validTimestamps (localDate 0) Map.empty Map.empty [exampleJuly])) + 7 * DAY_MS)"
    by blast
  then have d: "ganttDomain (fixedZone 0) (localDate 0) Map.empty Map.empty [exampleJuly] =
     Some (20263 * DAY_MS, 20307 * DAY_MS)"
    unfolding v by (simp add: DAY_MS_def)
  have r: "\<not> ganttRenders (fixedZone 0) (localDate 0) Map.empty Map.empty ?none 800"
    using t2 e by blast
  have o1: "?ov (Project exampleJuly) = Some ''2025-08-10'' \<and> ''2025-08-10'' \<noteq> [] \<and>
      parseDate (localDate 0) ''2025-08-10'' = Some (20310 * DAY_MS)"
    by code_simp
  have o2: "20310 * DAY_MS \<in> set (validTimestamps (localDate 0) Map.empty ?ov [exampleJuly])"
    unfolding t4 [THEN conjunct1] using o1 by auto
  have o3: "validTimestamps (localDate 0) Map.empty ?ov [exampleJuly] =
     [20270 * DAY_MS, 20300 * DAY_MS, 20274 * DAY_MS, 20310 * DAY_MS]"
    by code_simp
  have "validTimestamps (localDate 0) Map.empty ?ov [exampleJuly] \<noteq> []"
    unfolding o3 by simp
  with t4 have "ganttDomain (fixedZone 0) (localDate 0) Map.empty ?ov [exampleJuly] =
     Some (Min (set (validTimestamps (localDate 0) Map.empty ?ov [exampleJuly])) - 7 * DAY_MS,
           Max (set (validTimestamps (localDate 0) Map.empty ?ov [exampleJuly])) + 7 * DAY_MS)"
    by blast
  then have o4: "ganttDomain (fixedZone 0) (localDate 0) Map.empty ?ov [exampleJuly] =
     Some (20263 * DAY_MS, 20317 * DAY_MS)"
    unfolding o3 by (simp add: DAY_MS_def)
  have "validTimestamps (zoneDate exampleAutumn) Map.empty Map.empty [exampleOctober] \<noteq> []"
    unfolding a by simp
  with t3 have "ganttDomain exampleAutumn (zoneDate exampleAutumn) Map.empty Map.empty [exampleOctober] =
     Some (utc exampleAutumn (localTime exampleAutumn
             (Min (set (validTimestamps (zoneDate exampleAutumn) Map.empty Map.empty [exampleOctober]))) - 7 * DAY_MS),
           utc exampleAutumn (localTime exampleAutumn
             (Max (set (validTimestamps (zoneDate exampleAutumn) Map.empty Map.empty [exampleOctober]))) + 7 * DAY_MS))"
    by blast
  moreover have "Min (set [20362 * DAY_MS - 3600000, 20381 * DAY_MS - 3600000,
      20362 * DAY_MS - 3600000, 20371 * DAY_MS - 3600000]) = 20362 * DAY_MS - 3600000"
    by (simp add: DAY_MS_def)
  moreover have "Max (set [20362 * DAY_MS - 3600000, 20381 * DAY_MS - 3600000,
      20362 * DAY_MS - 3600000, 20371 * DAY_MS - 3600000]) = 20381 * DAY_MS - 3600000"
    by (simp add: DAY_MS_def)
  ultimately have "ganttDomain exampleAutumn (zoneDate exampleAutumn) Map.empty Map.empty [exampleOctober] =
     Some (utc exampleAutumn (localTime exampleAutumn (20362 * DAY_MS - 3600000) - 7 * DAY_MS),
           utc exampleAutumn (localTime exampleAutumn (20381 * DAY_MS - 3600000) + 7 * DAY_MS))"
    unfolding a by simp
  moreover have "utc exampleAutumn (localTime exampleAutumn (20362 * DAY_MS - 3600000) - 7 * DAY_MS) =
      20355 * DAY_MS - 3600000"
    by code_simp
  moreover have "utc exampleAutumn (localTime exampleAutumn (20381 * DAY_MS - 3600000) + 7 * DAY_MS) =
      20388 * DAY_MS"
    by code_simp
  ultimately have z: "ganttDomain exampleAutumn (zoneDate exampleAutumn) Map.empty Map.empty
      [exampleOctober] = Some (20355 * DAY_MS - 3600000, 20388 * DAY_MS)"
    by simp
  have h: "20388 * DAY_MS - (20381 * DAY_MS - 3600000) = 169 * 3600000"
    by (simp add: DAY_MS_def)
  show ?thesis using v d o2 o4 e r a z h by simp
qed

text \<open>
  C5 as stated fails.  With an end-date override that a cleared date input has left empty,
  project P has no override-resolved finish that parses, and the latest of its other dates
  is 2025-07-31; the code takes its finish date, 2025-09-30, and the domain ends on
  2025-10-07.  And for a project named \<open>constructor\<close> with no override the finish date,
  which parses, is not taken: the domain ends on 2025-08-07.
\<close>

theorem ganttDomain_padded_counterexample:
  "exampleCleared (Project exampleSeptember) = Some [] \<and>
   parseDate (localDate 0) [] = None \<and>
   map (parseDate (localDate 0))
     [OriginalStartDate exampleSeptember, DueDate exampleSeptember, StartDate exampleSeptember,
      FinishDate exampleSeptember] =
     [Some (20270 * DAY_MS), Some (20300 * DAY_MS), Some (20274 * DAY_MS), Some (20361 * DAY_MS)] \<and>
   ganttDomain (fixedZone 0) (localDate 0) noOverrides exampleCleared [exampleSeptember] =
     Some (20263 * DAY_MS, 20368 * DAY_MS) \<and>
   formatDate (20368 * DAY_MS) = ''2025-10-07'' \<and>
   noOverrides (Project exampleConstructor) = None \<and>
   parseDate (localDate 0) (FinishDate exampleConstructor) = Some (20361 * DAY_MS) \<and>
   ganttDomain (fixedZone 0) (localDate 0) noOverrides noOverrides [exampleConstructor] =
     Some (20263 * DAY_MS, 20307 * DAY_MS) \<and>
   formatDate (20307 * DAY_MS) = ''2025-08-07''"
  by code_simp

section \<open>Verification: drag sessions (C3, C4)\<close>

lemma dateLe_simps [simp]:
  "dateLe (Some x) (Some y) = (x \<le> y)" "dateLe None b = False" "dateLe a None = False"
  by (simp_all add: dateLe_def split: option.splits)

lemma addDays_simps [simp]:
  "addDays Z d (Some n) = Some (shiftDays Z d n)" "addDays Z d None = None"
  by (simp_all add: addDays_def)

lemma formatDateObject_simps [simp]:
  "formatDateObject (Some t) = formatDate t" "formatDateObject None = []"
  by (simp_all add: formatDateObject_def)


lemma steady_fixedZone: "steady (fixedZone tz) t"
  by (simp add: steady_def shiftDays_fixedZone)



lemma handleMouseMove_cases:
  "handleMouseMove Z domain width clientX (Some ds) = Some ds \<or>
   (\<exists>lo hi. domain = Some (lo, hi) \<and>
      handleMouseMove Z domain width clientX (Some ds) =
        Some (ds\<lparr>visualStartDate := fst (newVisual Z ds (dayDelta lo hi width (clientX - startX ds))),
                 visualFinishDate := snd (newVisual Z ds (dayDelta lo hi width (clientX - startX ds)))\<rparr>))"
  by (auto simp: handleMouseMove_def Let_def split: option.splits)

lemma handleMouseMove_effective:
  "0 < width \<Longrightarrow> lo < hi \<Longrightarrow>
   handleMouseMove Z (Some (lo, hi)) width clientX (Some ds) =
     Some (ds\<lparr>visualStartDate := fst (newVisual Z ds (dayDelta lo hi width (clientX - startX ds))),
              visualFinishDate := snd (newVisual Z ds (dayDelta lo hi width (clientX - startX ds)))\<rparr>)"
  by (simp add: handleMouseMove_def Let_def)

lemma newVisual_sameSession: "sameSession a b \<Longrightarrow> newVisual Z a d = newVisual Z b d"
  by (cases "dtype b") (auto simp: newVisual_def sameSession_def)

lemma moves_snoc:
  "moves Z (evs @ [(domain, width, clientX)]) st = handleMouseMove Z domain width clientX (moves Z evs st)"
  by (simp add: moves_def)

lemma moves_Some: "\<exists>ds'. moves Z evs (Some ds) = Some ds' \<and> sameSession ds ds'"
proof (induction evs rule: rev_induct)
  case Nil
  then show ?case by (simp add: moves_def sameSession_def)
next
  case (snoc e evs)
  obtain domain width clientX where e: "e = (domain, width, clientX)" by (cases e) auto
  from snoc obtain ds' where d: "moves Z evs (Some ds) = Some ds'" "sameSession ds ds'" by blast
  show ?case
    using handleMouseMove_cases [of Z domain width clientX ds'] d
    unfolding e moves_snoc by (auto simp: sameSession_def)
qed

lemma moves_last:
  assumes "0 < width" and "lo < hi"
  shows "\<exists>ds1. sameSession ds ds1 \<and>
           moves Z (evs @ [(Some (lo, hi), width, clientX)]) (Some ds) =
             Some (ds1\<lparr>visualStartDate := fst (newVisual Z ds (dayDelta lo hi width (clientX - startX ds))),
                       visualFinishDate := snd (newVisual Z ds (dayDelta lo hi width (clientX - startX ds)))\<rparr>)"
proof -
  obtain ds1 where d: "moves Z evs (Some ds) = Some ds1" "sameSession ds ds1"
    using moves_Some [of Z evs ds] by blast
  have x: "startX ds1 = startX ds" using d(2) by (simp add: sameSession_def)
  show ?thesis
    using d assms newVisual_sameSession [OF d(2), of Z "dayDelta lo hi width (clientX - startX ds)"]
    by (auto simp: moves_snoc handleMouseMove_effective x)
qed

lemma gesture_events:
  assumes "moves Z evs (Some ds) = Some ds'"
  shows "gesture Z ds evs =
    (case dtype ds of
       Move \<Rightarrow>
         if formatDateObject (visualStartDate ds') \<noteq> formatDate (initialStartDate ds)
         then [StartDateChange (Project (project ds)) (formatDateObject (visualStartDate ds')),
               EndDateChange (Project (project ds))
                 (formatDateObject
                    (map_option (\<lambda>t. t + (initialFinishDate ds - initialStartDate ds))
                       (visualStartDate ds')))]
         else []
     | ResizeStart \<Rightarrow>
         if formatDateObject (visualStartDate ds') \<noteq> formatDate (initialStartDate ds)
         then [StartDateChange (Project (project ds)) (formatDateObject (visualStartDate ds'))]
         else []
     | ResizeEnd \<Rightarrow>
         if formatDateObject (visualFinishDate ds') \<noteq> formatDate (initialFinishDate ds)
         then [EndDateChange (Project (project ds)) (formatDateObject (visualFinishDate ds'))]
         else [])"
proof -
  have s: "sameSession ds ds'"
    using moves_Some [of Z evs ds] assms by auto
  show ?thesis
    using s by (cases "dtype ds") (auto simp: gesture_def assms handleMouseUp_def sameSession_def)
qed

lemma newVisual_zero:
  "steady Z (initialStartDate ds) \<Longrightarrow> steady Z (initialFinishDate ds) \<Longrightarrow>
   dtype ds = Move \<or> initialStartDate ds < initialFinishDate ds \<Longrightarrow>
   newVisual Z ds (Some 0) = (Some (initialStartDate ds), Some (initialFinishDate ds))"
  by (cases "dtype ds") (auto simp: newVisual_def steady_def Let_def)

text \<open>
  C3, as amended.  At pointer-up a resize-start emits a start change exactly when the
  formatted visual start differs from the formatted initial start, a resize-end an end
  change exactly when the formatted visual finish differs from the formatted initial finish,
  and a move both a start change and an end change (of the visual start plus the initial
  duration) exactly when the formatted visual start differs from the formatted initial
  start; the session then ends.  A gesture with no pointer move emits nothing.  A gesture
  whose last pointer move has day delta 0 emits nothing when it is a move, or when the
  initial finish is after the initial start; the initial dates are then instants that
  \<^verbatim>\<open>setDate(getDate())\<close> leaves where they are, as every instant is in a zone with a fixed
  offset.
\<close>

theorem drag_commit_events:
  "(fresh ds \<longrightarrow> gesture Z ds [] = [])
   \<and> (0 < width \<and> lo < hi \<and> dayDelta lo hi width (clientX - startX ds) = Some 0 \<and>
      steady Z (initialStartDate ds) \<and> steady Z (initialFinishDate ds) \<and>
      (dtype ds = Move \<or> initialStartDate ds < initialFinishDate ds) \<longrightarrow>
        gesture Z ds (evs @ [(Some (lo, hi), width, clientX)]) = [])
   \<and> (moves Z evs (Some ds) = Some ds' \<longrightarrow>
        (dtype ds = Move \<longrightarrow>
           gesture Z ds evs =
             (if formatDateObject (visualStartDate ds') \<noteq> formatDate (initialStartDate ds)
              then [StartDateChange (Project (project ds)) (formatDateObject (visualStartDate ds')),
                    EndDateChange (Project (project ds))
                      (formatDateObject
                         (map_option (\<lambda>t. t + (initialFinishDate ds - initialStartDate ds))
                            (visualStartDate ds')))]
              else [])) \<and>
        (dtype ds = ResizeStart \<longrightarrow>
           gesture Z ds evs =
             (if formatDateObject (visualStartDate ds') \<noteq> formatDate (initialStartDate ds)
              then [StartDateChange (Project (project ds)) (formatDateObject (visualStartDate ds'))]
              else [])) \<and>
        (dtype ds = ResizeEnd \<longrightarrow>
           gesture Z ds evs =
             (if formatDateObject (visualFinishDate ds') \<noteq> formatDate (initialFinishDate ds)
              then [EndDateChange (Project (project ds)) (formatDateObject (visualFinishDate ds'))]
              else [])))
   \<and> snd (handleMouseUp st) = None
   \<and> steady (fixedZone tz) t"
proof (intro conjI impI)
  show "gesture Z ds [] = []" if "fresh ds"
    using that
    by (cases "dtype ds") (simp_all add: gesture_def moves_def handleMouseUp_def fresh_def)
next
  assume a: "0 < width \<and> lo < hi \<and> dayDelta lo hi width (clientX - startX ds) = Some 0 \<and>
      steady Z (initialStartDate ds) \<and> steady Z (initialFinishDate ds) \<and>
      (dtype ds = Move \<or> initialStartDate ds < initialFinishDate ds)"
  obtain ds1 where d: "sameSession ds ds1"
    "moves Z (evs @ [(Some (lo, hi), width, clientX)]) (Some ds) =
       Some (ds1\<lparr>visualStartDate := fst (newVisual Z ds (Some 0)),
                 visualFinishDate := snd (newVisual Z ds (Some 0))\<rparr>)"
    using moves_last [of width lo hi ds Z evs clientX] a by auto
  have z: "newVisual Z ds (Some 0) = (Some (initialStartDate ds), Some (initialFinishDate ds))"
    using a by (simp add: newVisual_zero)
  show "gesture Z ds (evs @ [(Some (lo, hi), width, clientX)]) = []"
    unfolding gesture_events [OF d(2)] z by (cases "dtype ds") simp_all
next
  assume m: "moves Z evs (Some ds) = Some ds'"
  show "gesture Z ds evs =
             (if formatDateObject (visualStartDate ds') \<noteq> formatDate (initialStartDate ds)
              then [StartDateChange (Project (project ds)) (formatDateObject (visualStartDate ds')),
                    EndDateChange (Project (project ds))
                      (formatDateObject
                         (map_option (\<lambda>t. t + (initialFinishDate ds - initialStartDate ds))
                            (visualStartDate ds')))]
              else [])" if "dtype ds = Move"
    unfolding gesture_events [OF m] using that by simp
  show "gesture Z ds evs =
             (if formatDateObject (visualStartDate ds') \<noteq> formatDate (initialStartDate ds)
              then [StartDateChange (Project (project ds)) (formatDateObject (visualStartDate ds'))]
              else [])" if "dtype ds = ResizeStart"
    unfolding gesture_events [OF m] using that by simp
  show "gesture Z ds evs =
             (if formatDateObject (visualFinishDate ds') \<noteq> formatDate (initialFinishDate ds)
              then [EndDateChange (Project (project ds)) (formatDateObject (visualFinishDate ds'))]
              else [])" if "dtype ds = ResizeEnd"
    unfolding gesture_events [OF m] using that by simp
next
  show "snd (handleMouseUp st) = None"
    by (cases st) (simp_all add: handleMouseUp_def)
  show "steady (fixedZone tz) t"
    by (rule steady_fixedZone)
qed

text \<open>A bar moved by three days and back, and a bar moved by two days.\<close>

theorem drag_commit_events_witness:
  "fresh exampleSession \<and> gesture (fixedZone 0) exampleSession [] = [] \<and>
   (0 :: int) < 800 \<and> 20263 * DAY_MS < 20307 * DAY_MS \<and>
   dayDelta (20263 * DAY_MS) (20307 * DAY_MS) 800 (700 - startX exampleSession) = Some 0 \<and>
   steady (fixedZone 0) (initialStartDate exampleSession) \<and>
   steady (fixedZone 0) (initialFinishDate exampleSession) \<and>
   dtype exampleSession = Move \<and>
   gesture (fixedZone 0) exampleSession
     (exampleBack @ [(Some (20263 * DAY_MS, 20307 * DAY_MS), 800, 700)]) = [] \<and>
   moves (fixedZone 0) exampleTwoDays (Some exampleSession) =
     Some (exampleSession\<lparr>visualStartDate := Some (20272 * DAY_MS),
                          visualFinishDate := Some (20302 * DAY_MS)\<rparr>) \<and>
   gesture (fixedZone 0) exampleSession exampleTwoDays =
     [StartDateChange ''P'' ''2025-07-03'', EndDateChange ''P'' ''2025-08-02'']"
proof -
  let ?ds' = "exampleSession\<lparr>visualStartDate := Some (20272 * DAY_MS),
                             visualFinishDate := Some (20302 * DAY_MS)\<rparr>"
  have f: "fresh exampleSession" by code_simp
  have w: "(0 :: int) < 800 \<and> 20263 * DAY_MS < 20307 * DAY_MS \<and>
      dayDelta (20263 * DAY_MS) (20307 * DAY_MS) 800 (700 - startX exampleSession) = Some 0 \<and>
      dtype exampleSession = Move"
    by code_simp
  note t = drag_commit_events [where ds = exampleSession and width = 800 and Z = "fixedZone 0"
      and lo = "20263 * DAY_MS" and hi = "20307 * DAY_MS" and evs = exampleBack and clientX = 700
      and tz = 0]
  note u = drag_commit_events [where ds = exampleSession and evs = exampleTwoDays
      and Z = "fixedZone 0" and ds' = ?ds']
  have s: "steady (fixedZone 0) (initialStartDate exampleSession) \<and>
      steady (fixedZone 0) (initialFinishDate exampleSession)"
    using t [where t = "initialStartDate exampleSession"]
      t [where t = "initialFinishDate exampleSession"] by blast
  have m: "moves (fixedZone 0) exampleTwoDays (Some exampleSession) = Some ?ds'"
    by code_simp
  have g0: "gesture (fixedZone 0) exampleSession [] = []" using t f by blast
  have g1: "gesture (fixedZone 0) exampleSession
      (exampleBack @ [(Some (20263 * DAY_MS, 20307 * DAY_MS), 800, 700)]) = []"
    using t w s by blast
  have "gesture (fixedZone 0) exampleSession exampleTwoDays =
     (if formatDateObject (visualStartDate ?ds') \<noteq> formatDate (initialStartDate exampleSession)
      then [StartDateChange (Project (project exampleSession)) (formatDateObject (visualStartDate ?ds')),
            EndDateChange (Project (project exampleSession))
              (formatDateObject
                 (map_option (\<lambda>t. t + (initialFinishDate exampleSession - initialStartDate exampleSession))
                    (visualStartDate ?ds')))]
      else [])"
    using u m w by blast
  also have "\<dots> = [StartDateChange ''P'' ''2025-07-03'', EndDateChange ''P'' ''2025-08-02'']"
    by code_simp
  finally show ?thesis using f w s m g0 g1 by blast
qed

text \<open>
  C3 as stated fails: on a bar that starts and is due on 2025-07-01, a resize-end gesture
  with day delta 0 is clamped to one day and emits an end change to 2025-07-02.
\<close>

theorem drag_commit_events_counterexample:
  "dayDelta (20263 * DAY_MS) (20277 * DAY_MS) 800 (100 - 100) = Some 0 \<and>
   ganttDomain (fixedZone 0) (localDate 0) noOverrides noOverrides [exampleZeroLength] =
     Some (20263 * DAY_MS, 20277 * DAY_MS) \<and>
   dragGesture (fixedZone 0) (localDate 0) noOverrides noOverrides 100 exampleZeroLength ResizeEnd
     [(ganttDomain (fixedZone 0) (localDate 0) noOverrides noOverrides [exampleZeroLength], 800, 100)] =
   [EndDateChange ''P'' ''2025-07-02'']"
  by code_simp














subsection \<open>Outside these conditions\<close>

text \<open>
  On a chart exactly as wide as its margins the day delta is not a number: a move leaves
  both visual dates invalid, and the pointer-up emits two changes to the empty string.
\<close>

lemma drag_on_chart_without_width:
  "dayDelta (20263 * DAY_MS) (20307 * DAY_MS) 170 (743 - 700) = None \<and>
   moves (fixedZone 0) [(Some (20263 * DAY_MS, 20307 * DAY_MS), 170, 743)] (Some exampleSession) =
     Some (exampleSession\<lparr>visualStartDate := None, visualFinishDate := None\<rparr>) \<and>
   gesture (fixedZone 0) exampleSession [(Some (20263 * DAY_MS, 20307 * DAY_MS), 170, 743)] =
     [StartDateChange ''P'' [], EndDateChange ''P'' []]"
  by code_simp

text \<open>
  Five and a half hours ahead of UTC the platform does not read a formatted date back as
  the same instant: the local midnight of 2025-07-02 is formatted as 2025-07-01.  The
  resize-end of the bar that starts on 2025-07-01, clamped to the day after the start,
  commits 2025-07-01, and the plan then ends when it starts.
\<close>

lemma drag_commit_ahead_of_utc:
  "dragGesture (fixedZone 330) (localDate 330) noOverrides noOverrides 700 exampleJuly ResizeEnd
     [(ganttDomain (fixedZone 330) (localDate 330) noOverrides noOverrides [exampleJuly], 800, 127)] =
     [EndDateChange ''P'' ''2025-07-01''] \<and>
   planDates (localDate 330)
     (commit [EndDateChange ''P'' ''2025-07-01''] (noOverrides, noOverrides)) exampleJuly =
     (Some (20270 * DAY_MS - 330 * 60000), Some (20270 * DAY_MS - 330 * 60000))"
  by code_simp

text \<open>
  In the zone whose clocks go back at 2025-10-26 00:00 UTC, \<^verbatim>\<open>setDate(getDate())\<close> takes
  that instant to the first time the local clock reads midnight, an hour earlier and on the
  day before in UTC: a move with day delta 0 emits two changes.
\<close>

lemma zero_delta_in_repeated_hour:
  "\<not> steady exampleAutumn (initialStartDate exampleRepeated) \<and>
   dayDelta (20380 * DAY_MS) (20397 * DAY_MS) 800 (700 - startX exampleRepeated) = Some 0 \<and>
   gesture exampleAutumn exampleRepeated [(Some (20380 * DAY_MS, 20397 * DAY_MS), 800, 700)] =
     [StartDateChange ''R'' ''2025-10-25'', EndDateChange ''R'' ''2025-10-28'']"
  by code_simp

section \<open>Verification: tabular ingestion (C6)\<close>

lemma parseLines_data:
  "fst (parseLines header i ls) =
     map (\<lambda>l. rowObject header (splitCsvRow l))
       (filter (\<lambda>l. \<not> blank l \<and> length (splitCsvRow l) = length header) ls)"
  by (induction ls arbitrary: i) (simp_all add: split_beta)

lemma parseLines_errors:
  "snd (parseLines header i ls) =
     map (\<lambda>(n, l). IncorrectColumns (Suc n) (length header) (length (splitCsvRow l)))
       (filter (\<lambda>(n, l). \<not> blank l \<and> length (splitCsvRow l) \<noteq> length header)
          (List.enumerate i ls))"
  by (induction ls arbitrary: i) (simp_all add: split_beta)

text \<open>
  C6, as amended.  The lines are those of the text once its leading and trailing white
  space is removed, the header being line 1.  When there are at least two, with a header of
  width \<open>W\<close>, the \<open>errors\<close> are, in order, one entry for every line after the header that
  is not blank and does not split into exactly \<open>W\<close> fields, carrying the number of the
  line among these lines, counted from 1; the rows are, in order, one row for every line
  after the header that is not blank and splits into exactly \<open>W\<close> fields: a mismatched line
  adds no row and stops nothing.  A blank line (empty, or white space only) adds neither.
\<close>

theorem csv_row_count:
  "2 \<le> length (csvLines csvText) \<longrightarrow>
     snd (robustCsvParse csvText) =
       map (\<lambda>(n, l). IncorrectColumns (Suc n) (length (csvHeader csvText)) (length (splitCsvRow l)))
         (filter (\<lambda>(n, l). \<not> blank l \<and> length (splitCsvRow l) \<noteq> length (csvHeader csvText))
            (List.enumerate 1 (tl (csvLines csvText))))
     \<and> fst (robustCsvParse csvText) =
       map (\<lambda>l. rowObject (csvHeader csvText) (splitCsvRow l))
         (filter (\<lambda>l. \<not> blank l \<and> length (splitCsvRow l) = length (csvHeader csvText))
            (tl (csvLines csvText)))"
  by (simp add: robustCsvParse_def parseLines_data parseLines_errors)

text \<open>
  A header of width 2, a line of one field and a line of two; and a line of no-break spaces,
  which is blank.
\<close>

theorem csv_row_count_witness:
  "2 \<le> length (csvLines exampleCsv) \<and>
   csvLines exampleCsv = [''a,b'', ''3'', ''1,2''] \<and>
   blank [CHR 0xA0, CHR 0xA0] \<and>
   robustCsvParse exampleCsvNbsp = robustCsvParse exampleCsvBlank \<and>
   snd (robustCsvParse exampleCsv) = [IncorrectColumns 2 2 1] \<and>
   map message (snd (robustCsvParse exampleCsv)) =
     [''Row 2 has incorrect columns (expected 2, found 1). Skipping.''] \<and>
   map (\<lambda>r. (r ''a'', r ''b'')) (fst (robustCsvParse exampleCsv)) = [(Some ''1'', Some ''2'')]"
proof -
  have h: "2 \<le> length (csvLines exampleCsv)" by code_simp
  from csv_row_count [of exampleCsv] h
  have e: "snd (robustCsvParse exampleCsv) =
       map (\<lambda>(n, l). IncorrectColumns (Suc n) (length (csvHeader exampleCsv)) (length (splitCsvRow l)))
         (filter (\<lambda>(n, l). \<not> blank l \<and> length (splitCsvRow l) \<noteq> length (csvHeader exampleCsv))
            (List.enumerate 1 (tl (csvLines exampleCsv))))"
    by blast
  have "map (\<lambda>(n, l). IncorrectColumns (Suc n) (length (csvHeader exampleCsv)) (length (splitCsvRow l)))
         (filter (\<lambda>(n, l). \<not> blank l \<and> length (splitCsvRow l) \<noteq> length (csvHeader exampleCsv))
            (List.enumerate 1 (tl (csvLines exampleCsv)))) = [IncorrectColumns 2 2 1]"
    by code_simp
  with e have e': "snd (robustCsvParse exampleCsv) = [IncorrectColumns 2 2 1]" by simp
  have m: "map message [IncorrectColumns 2 2 1] =
     [''Row 2 has incorrect columns (expected 2, found 1). Skipping.'']"
    by code_simp
  have d: "map (\<lambda>r. (r ''a'', r ''b'')) (fst (robustCsvParse exampleCsv)) = [(Some ''1'', Some ''2'')]"
    by code_simp
  have l: "csvLines exampleCsv = [''a,b'', ''3'', ''1,2'']" by code_simp
  have b: "blank [CHR 0xA0, CHR 0xA0]" by code_simp
  have "csvLines exampleCsvNbsp = [''a,b'', [CHR 0xA0, CHR 0xA0], ''1,2'']" by code_simp
  moreover have "csvLines exampleCsvBlank = [''a,b'', [], ''1,2'']" by code_simp
  moreover have "blank []" by (simp add: blank_def)
  ultimately have n: "robustCsvParse exampleCsvNbsp = robustCsvParse exampleCsvBlank"
    using b by (simp add: robustCsvParse_def csvHeader_def)
  show ?thesis using h e' m d l b n by simp
qed

text \<open>
  C6 as stated fails on blank lines: an empty line splits into no field under a header of
  width 2 and adds no entry to \<open>errors\<close>; a line of one space splits into one field under a
  header of width 1 and adds no row.  And after two empty lines the short line, the fourth
  line of the file, is reported as row 2.
\<close>

theorem csv_row_count_counterexample:
  "splitOn newline exampleCsvLeading = [[], [], ''a,b'', ''3'', ''1,2''] \<and>
   snd (robustCsvParse exampleCsvLeading) = [IncorrectColumns 2 2 1] \<and>
   csvLines exampleCsvBlank = [''a,b'', [], ''1,2''] \<and>
   length (csvHeader exampleCsvBlank) = 2 \<and> length (splitCsvRow []) = 0 \<and>
   snd (robustCsvParse exampleCsvBlank) = [] \<and>
   csvLines exampleCsvSpace = [''a'', '' '', ''x''] \<and>
   length (csvHeader exampleCsvSpace) = 1 \<and> length (splitCsvRow '' '') = 1 \<and>
   length (fst (robustCsvParse exampleCsvSpace)) = 1 \<and>
   snd (robustCsvParse exampleCsvSpace) = []"
  by code_simp

section \<open>Verification: the normalizer (C7, C8)\<close>

lemma alias_fold:
  "foldl (\<lambda>newRow (key, target). if truthy (r key) then newRow(target := r key) else newRow) m cols k =
     (case filter (\<lambda>(key, target). target = k \<and> truthy (r key)) cols of
        [] \<Rightarrow> m k
      | x # xs \<Rightarrow> r (fst (last (x # xs))))"
proof (induction cols rule: rev_induct)
  case Nil
  then show ?case by simp
next
  case (snoc c cols)
  obtain key target where c: "c = (key, target)" by (cases c) auto
  show ?case
    unfolding c using snoc.IH
    by (auto split: list.splits)
qed

lemma rename_last_alias:
  "rename r k =
     (case filter (\<lambda>(key, target). target = k \<and> truthy (r key)) renamedCols of
        [] \<Rightarrow> r k
      | x # xs \<Rightarrow> r (fst (last (x # xs))))"
  unfolding rename_def by (rule alias_fold)

lemma rename_EstimatedHours:
  "rename r ''Estimated Hours'' =
     (if truthy (r ''Estimated Hours'') then r ''Estimated Hours''
      else if truthy (r ''Labor Time'') then r ''Labor Time''
      else if truthy (r ''Expected Hours'') then r ''Expected Hours''
      else r ''Estimated Hours'')"
  unfolding rename_last_alias by (simp add: renamedCols_def)

lemma rename_Project:
  "rename r ''Project'' =
     (if truthy (r ''Project'') then r ''Project''
      else if truthy (r ''Game'') then r ''Game'' else r ''Project'')"
  unfolding rename_last_alias by (simp add: renamedCols_def)

lemma rename_DueDate:
  "rename r ''DueDate'' = (if truthy (r ''Due Date'') then r ''Due Date'' else r ''DueDate'')"
  unfolding rename_last_alias by (simp add: renamedCols_def)

lemma rename_StartDate:
  "rename r ''StartDate'' = (if truthy (r ''Start Date'') then r ''Start Date'' else r ''StartDate'')"
  unfolding rename_last_alias by (simp add: renamedCols_def)

lemma rename_other:
  "k \<notin> snd ` set renamedCols \<Longrightarrow> rename r k = r k"
proof -
  assume a: "k \<notin> snd ` set renamedCols"
  have "filter (\<lambda>(key, target). target = k \<and> truthy (r key)) renamedCols = []"
    using a by (force simp: filter_empty_conv)
  then show ?thesis unfolding rename_last_alias by simp
qed

lemma rename_Store: "rename r ''Store'' = r ''Store''"
  unfolding rename_last_alias by (simp add: renamedCols_def)

lemma rename_Value: "rename r ''Value'' = r ''Value''"
  unfolding rename_last_alias by (simp add: renamedCols_def)

lemma rename_SKU: "rename r ''SKU'' = r ''SKU''"
  by (rule rename_other) (simp add: renamedCols_def)

lemma rename_Order: "rename r ''Order'' = r ''Order''"
  by (rule rename_other) (simp add: renamedCols_def)

text \<open>
  C8, as amended.  After the alias pass a field holds the value of the last entry of the
  alias table, in table order, that maps to it and has a non-empty value in the row, and
  its own value when there is none.  Project, Estimated Hours, Value and Store are
  themselves the last entry that maps to them, so their non-empty value is kept; among
  aliases the later one wins: Estimated Hours is the row's Estimated Hours, else its Labor
  Time, else its Expected Hours.  DueDate and StartDate have no entry of their own: a
  non-empty Due Date or Start Date replaces them.  A field that is no target of the table
  is unchanged.
\<close>

theorem alias_last_wins:
  "rename r k =
     (case filter (\<lambda>(key, target). target = k \<and> truthy (r key)) renamedCols of
        [] \<Rightarrow> r k
      | x # xs \<Rightarrow> r (fst (last (x # xs))))
   \<and> rename r ''Estimated Hours'' =
       (if truthy (r ''Estimated Hours'') then r ''Estimated Hours''
        else if truthy (r ''Labor Time'') then r ''Labor Time''
        else if truthy (r ''Expected Hours'') then r ''Expected Hours''
        else r ''Estimated Hours'')
   \<and> rename r ''Project'' =
       (if truthy (r ''Project'') then r ''Project''
        else if truthy (r ''Game'') then r ''Game'' else r ''Project'')
   \<and> rename r ''DueDate'' = (if truthy (r ''Due Date'') then r ''Due Date'' else r ''DueDate'')
   \<and> rename r ''StartDate'' =
       (if truthy (r ''Start Date'') then r ''Start Date'' else r ''StartDate'')
   \<and> rename r ''Value'' = r ''Value''
   \<and> rename r ''Store'' = r ''Store''
   \<and> (k \<notin> snd ` set renamedCols \<longrightarrow> rename r k = r k)"
  using rename_last_alias [of r k] rename_EstimatedHours [of r] rename_Project [of r]
    rename_DueDate [of r] rename_StartDate [of r] rename_Value [of r] rename_Store [of r]
    rename_other [of k r]
  by blast

text \<open>
  A row with Estimated Hours and both aliases, and its SKU; a row with a DueDate and a Due
  Date.
\<close>

theorem alias_last_wins_witness:
  "rename exampleCanonical ''Estimated Hours'' = Some ''3'' \<and>
   ''SKU'' \<notin> snd ` set renamedCols \<and>
   rename exampleCanonical ''SKU'' = exampleCanonical ''SKU'' \<and>
   exampleDueDates ''DueDate'' = Some ''2025-07-10'' \<and>
   rename exampleDueDates ''DueDate'' = Some ''2025-08-01''"
proof -
  have d: "exampleDueDates ''DueDate'' = Some ''2025-07-10''" by code_simp
  have d1: "truthy (exampleDueDates ''Due Date'')" by code_simp
  have d2: "exampleDueDates ''Due Date'' = Some ''2025-08-01''" by code_simp
  have d3: "rename exampleDueDates ''DueDate'' = Some ''2025-08-01''"
    using alias_last_wins [of exampleDueDates "''SKU''"] d1 d2 by simp
  have a: "truthy (exampleCanonical ''Estimated Hours'')" by code_simp
  have b: "exampleCanonical ''Estimated Hours'' = Some ''3''" by code_simp
  have c: "''SKU'' \<notin> snd ` set renamedCols" by (simp add: renamedCols_def)
  note t = alias_last_wins [of exampleCanonical "''SKU''"]
  have "rename exampleCanonical ''Estimated Hours'' = exampleCanonical ''Estimated Hours''"
    using t a by simp
  moreover have "rename exampleCanonical ''SKU'' = exampleCanonical ''SKU''"
    using t c by blast
  ultimately show ?thesis using b c d d3 by simp
qed

text \<open>
  C8 as stated fails: with Expected Hours 5 and Labor Time 7 the later alias overwrites the
  value of the earlier one, and Estimated Hours is 7.
\<close>

theorem alias_last_wins_counterexample:
  "exampleAliases ''Expected Hours'' = Some ''5'' \<and>
   exampleAliases ''Labor Time'' = Some ''7'' \<and>
   rename exampleAliases ''Estimated Hours'' = Some ''7''"
  by code_simp

lemma truthy_orEmpty: "truthy v \<Longrightarrow> orEmpty v \<noteq> []"
  by (cases v) (simp_all add: truthy_def orEmpty_def)

lemma kept_coerce_rename: "kept (coerce D (rename r)) = survives D r"
  by (auto simp: kept_def coerce_def survives_def truthy_orEmpty)

lemma filter_map_kept:
  "filter kept (map (coerce D) (map rename data)) =
     map (\<lambda>r. coerce D (rename r)) (filter (survives D) data)"
  by (induction data) (simp_all add: kept_coerce_rename)

text \<open>
  C7, as amended.  The clean step keeps exactly the rows that have a project and a SKU, an
  order that \<^verbatim>\<open>parseInt\<close> reads, estimated hours that \<^verbatim>\<open>parseFloat\<close> reads, and a start
  and a due date that parse, in their order; it returns \<^verbatim>\<open>null\<close> exactly when the input is
  not empty and no row is kept.  A row with no store is not filtered out: its store becomes
  \<open>N/A\<close>.
\<close>

theorem clean_filters_rows:
  "(loadAndCleanData D data = None \<longleftrightarrow> data \<noteq> [] \<and> (\<forall>r\<in>set data. \<not> survives D r))
   \<and> (loadAndCleanData D data = Some ts \<longrightarrow>
        ts = map (\<lambda>r. coerce D (rename r)) (filter (survives D) data))
   \<and> (survives D r \<longleftrightarrow>
        truthy (rename r ''Project'') \<and> truthy (r ''SKU'') \<and>
        Option.bind (r ''Order'') parseInt10 \<noteq> None \<and>
        Option.bind (rename r ''Estimated Hours'') parseFloat \<noteq> None \<and>
        parseDate D (orEmpty (rename r ''StartDate'')) \<noteq> None \<and>
        parseDate D (orEmpty (rename r ''DueDate'')) \<noteq> None)
   \<and> taskStore (coerce D (rename r)) =
       (if truthy (r ''Store'') then orEmpty (r ''Store'') else ''N/A'')"
proof (intro conjI impI)
  show "loadAndCleanData D data = None \<longleftrightarrow> data \<noteq> [] \<and> (\<forall>r\<in>set data. \<not> survives D r)"
    unfolding loadAndCleanData_def Let_def filter_map_kept
    by (simp add: filter_empty_conv)
  show "ts = map (\<lambda>r. coerce D (rename r)) (filter (survives D) data)"
    if "loadAndCleanData D data = Some ts"
    using that unfolding loadAndCleanData_def Let_def filter_map_kept
    by (simp split: if_splits)
  show "survives D r \<longleftrightarrow>
        truthy (rename r ''Project'') \<and> truthy (r ''SKU'') \<and>
        Option.bind (r ''Order'') parseInt10 \<noteq> None \<and>
        Option.bind (rename r ''Estimated Hours'') parseFloat \<noteq> None \<and>
        parseDate D (orEmpty (rename r ''StartDate'')) \<noteq> None \<and>
        parseDate D (orEmpty (rename r ''DueDate'')) \<noteq> None"
    by (simp add: survives_def rename_SKU rename_Order)
  show "taskStore (coerce D (rename r)) =
       (if truthy (r ''Store'') then orEmpty (r ''Store'') else ''N/A'')"
    by (simp add: coerce_def rename_Store)
qed

text \<open>A row whose order is not a number, alone and followed by a good row.\<close>

theorem clean_filters_rows_witness:
  "\<not> survives (localDate 0) exampleNoOrder \<and>
   loadAndCleanData (localDate 0) [exampleNoOrder] = None \<and>
   survives (localDate 0) exampleNoStore \<and>
   map_option length (loadAndCleanData (localDate 0) [exampleNoOrder, exampleNoStore]) = Some 1 \<and>
   loadAndCleanData (localDate 0) [] = Some []"
proof -
  have a: "\<not> survives (localDate 0) exampleNoOrder" by code_simp
  have b: "survives (localDate 0) exampleNoStore" by code_simp
  note t = clean_filters_rows [where D = "localDate 0" and data = "[exampleNoOrder]"]
  have n: "loadAndCleanData (localDate 0) [exampleNoOrder] = None"
    using t a by simp
  have e: "loadAndCleanData (localDate 0) [] = Some []"
    by (simp add: loadAndCleanData_def)
  have "loadAndCleanData (localDate 0) [exampleNoOrder, exampleNoStore] \<noteq> None"
    using clean_filters_rows [where D = "localDate 0" and data = "[exampleNoOrder, exampleNoStore]"] b
    by simp
  then obtain ts where s: "loadAndCleanData (localDate 0) [exampleNoOrder, exampleNoStore] = Some ts"
    by blast
  have "ts = map (\<lambda>r. coerce (localDate 0) (rename r))
          (filter (survives (localDate 0)) [exampleNoOrder, exampleNoStore])"
    using clean_filters_rows [where D = "localDate 0" and data = "[exampleNoOrder, exampleNoStore]"
        and ts = ts] s by blast
  then have "length ts = 1" using a b by simp
  then show ?thesis using a b n e s by simp
qed

text \<open>
  C7 as stated fails: a row with no Store is kept, with store \<open>N/A\<close>, and the result is not
  \<^verbatim>\<open>null\<close>.
\<close>

theorem clean_filters_rows_counterexample:
  "exampleNoStore ''Store'' = None \<and>
   map_option (map taskStore) (loadAndCleanData (localDate 0) [exampleNoStore]) = Some [''N/A'']"
  by code_simp

section \<open>Verification: upload (C9)\<close>

lemma set_uniq: "set (uniq xs) = set xs"
  by (induction xs) auto

lemma distinct_uniq: "distinct (uniq xs)"
  by (induction xs) (auto simp: set_uniq)

lemma set_builtProjects:
  "set (builtProjects tasks) =
     {taskProject t | t. t \<in> set tasks \<and> taskProject t \<noteq> [] \<and>
        taskProject t \<notin> set prototypeNames}"
  by (auto simp: builtProjects_def set_uniq)

lemma set_duplicates:
  "set (duplicates cleanedData tasks) =
     taskProject ` set cleanedData \<inter> set (builtProjects tasks)"
  by (auto simp: duplicates_def set_uniq)

lemma distinct_duplicates: "distinct (duplicates cleanedData tasks)"
  by (simp add: duplicates_def distinct_uniq)

lemma joinWith_names: "n \<in> set xs \<Longrightarrow> \<exists>a b. joinWith sep xs = a @ n @ b"
proof (induction sep xs rule: joinWith.induct)
  case (1 sep)
  then show ?case by simp
next
  case (2 sep x)
  then have "joinWith sep [x] = [] @ n @ []" by simp
  then show ?case by blast
next
  case (3 sep x y ys)
  show ?case
  proof (cases "n = x")
    case True
    then have "joinWith sep (x # y # ys) = [] @ n @ (sep @ joinWith sep (y # ys))" by simp
    then show ?thesis by blast
  next
    case False
    then have "n \<in> set (y # ys)" using "3.prems" by simp
    then obtain a b where "joinWith sep (y # ys) = a @ n @ b" using "3.IH" by blast
    then have "joinWith sep (x # y # ys) = (x @ sep @ a) @ n @ b" by simp
    then show ?thesis by blast
  qed
qed

lemma fileLoaded_rejected:
  assumes "loadAndCleanData D (fst (robustCsvParse text)) = Some cleanedData"
    and "duplicates cleanedData (projectTasks st) \<noteq> []"
  shows "projectTasks (fileLoaded D fileName text st) = projectTasks st"
    and "projectFileName (fileLoaded D fileName text st) = projectFileName st"
    and "error (fileLoaded D fileName text st) =
           ''Upload failed. The following projects already exist: '' @
           joinWith '', '' (duplicates cleanedData (projectTasks st)) @
           ''. Please remove them or use unique names in your CSV.''"
proof -
  have ne: "cleanedData \<noteq> []"
    using assms(2) by (auto simp: duplicates_def)
  then obtain c cs where c: "cleanedData = c # cs" by (cases cleanedData) auto
  show "projectTasks (fileLoaded D fileName text st) = projectTasks st"
    using assms unfolding c by (simp add: fileLoaded_def Let_def)
  show "projectFileName (fileLoaded D fileName text st) = projectFileName st"
    using assms unfolding c by (simp add: fileLoaded_def Let_def)
  show "error (fileLoaded D fileName text st) =
           ''Upload failed. The following projects already exist: '' @
           joinWith '', '' (duplicates cleanedData (projectTasks st)) @
           ''. Please remove them or use unique names in your CSV.''"
    using assms unfolding c by (simp add: fileLoaded_def Let_def)
qed

lemma fileLoaded_accepted:
  assumes "loadAndCleanData D (fst (robustCsvParse text)) = Some cleanedData"
    and "cleanedData \<noteq> []"
    and "duplicates cleanedData (projectTasks st) = []"
  shows "projectTasks (fileLoaded D fileName text st) = projectTasks st @ cleanedData"
proof -
  obtain c cs where c: "cleanedData = c # cs" using assms(2) by (cases cleanedData) auto
  show ?thesis using assms unfolding c by (simp add: fileLoaded_def Let_def)
qed

text \<open>
  An upload is rejected as a whole when one of its rows has the project name of a loaded
  task, provided that name is not one of the names that every object inherits: the task
  list is left as it was and the error message is the fixed text around the colliding
  names, each once, joined by commas, so that every colliding name occurs in it.
\<close>

lemma fileLoaded_rejects_listed:
  assumes c: "loadAndCleanData D (fst (robustCsvParse csvText)) = Some cleanedData"
    and t: "t \<in> set cleanedData" and u: "u \<in> set (projectTasks st)"
    and n: "taskProject t = taskProject u" "taskProject t \<noteq> []"
      "taskProject t \<notin> set prototypeNames"
  shows "projectTasks (fileLoaded D fileName csvText st) = projectTasks st"
    and "\<exists>a b. error (fileLoaded D fileName csvText st) = a @ taskProject t @ b"
proof -
  have "taskProject t \<in> taskProject ` set cleanedData"
    using t by (rule imageI)
  moreover have "taskProject t \<in> set (builtProjects (projectTasks st))"
    unfolding set_builtProjects using u n by auto
  ultimately have m: "taskProject t \<in> set (duplicates cleanedData (projectTasks st))"
    unfolding set_duplicates by simp
  then have d: "duplicates cleanedData (projectTasks st) \<noteq> []" by auto
  show "projectTasks (fileLoaded D fileName csvText st) = projectTasks st"
    using c d by (simp add: fileLoaded_rejected)
  obtain a b where "joinWith '', '' (duplicates cleanedData (projectTasks st)) = a @ taskProject t @ b"
    using joinWith_names [OF m] by blast
  then have "error (fileLoaded D fileName csvText st) =
      (''Upload failed. The following projects already exist: '' @ a) @ taskProject t @
      (b @ ''. Please remove them or use unique names in your CSV.'')"
    using c d by (simp add: fileLoaded_rejected)
  then show "\<exists>a b. error (fileLoaded D fileName csvText st) = a @ taskProject t @ b"
    by blast
qed

text \<open>
  C9 fails on the code for a project named like a member that every object inherits.  The
  file with project Job-001, uploaded a second time, is rejected: no task is added and the
  message names Job-001.  The file with project \<open>constructor\<close>, uploaded a second time, is
  accepted: \<^verbatim>\<open>builtProjects\<close> never lists the name (\<^verbatim>\<open>!acc['constructor']\<close> is false on the
  empty accumulator), no duplicate is found, the task is appended a second time and no
  error is set.
\<close>

theorem upload_accepts_inherited_name:
  "map taskProject (projectTasks exampleLoaded) = [''Job-001''] \<and>
   builtProjects (projectTasks exampleLoaded) = [''Job-001''] \<and>
   map taskProject
     (projectTasks (fileLoaded (localDate 0) ''b.csv'' exampleUpload exampleLoaded)) =
     [''Job-001''] \<and>
   error (fileLoaded (localDate 0) ''b.csv'' exampleUpload exampleLoaded) =
     ''Upload failed. The following projects already exist: Job-001. Please remove them or use unique names in your CSV.'' \<and>
   map taskProject (projectTasks exampleInheritedLoaded) = [''constructor''] \<and>
   builtProjects (projectTasks exampleInheritedLoaded) = [] \<and>
   map_option (map taskProject)
     (loadAndCleanData (localDate 0) (fst (robustCsvParse exampleInherited))) =
     Some [''constructor''] \<and>
   map taskProject
     (projectTasks (fileLoaded (localDate 0) ''b.csv'' exampleInherited exampleInheritedLoaded)) =
     [''constructor'', ''constructor''] \<and>
   projectFileName (fileLoaded (localDate 0) ''b.csv'' exampleInherited exampleInheritedLoaded) =
     ''b.csv'' \<and>
   error (fileLoaded (localDate 0) ''b.csv'' exampleInherited exampleInheritedLoaded) = []"
  by code_simp

end

